theory Spec2Isabelle
  imports Complex_Main "HOL-Library.Multiset"
begin

section \<open>Python strings\<close>

text \<open>
  A Python \<^verbatim>\<open>str\<close> is a sequence of Unicode code points, and \<^verbatim>\<open>len\<close> and slicing
  count code points. A character is therefore modelled by its code point and a string by
  the list of them; an ASCII literal is embedded with \<open>py\<close>.
\<close>

type_synonym pystr = "nat list"

definition py :: "string \<Rightarrow> pystr" where
  "py s = map of_char s"

definition newline :: nat where
  "newline = 10"

text \<open>The cursor glyph U+258A, the cross mark U+274C, the warning sign U+26A0 followed by
  the variation selector U+FE0F, and the thinking face U+1F914.\<close>

definition cursor :: pystr where
  "cursor = [9610]"

definition cross_mark :: pystr where
  "cross_mark = [10060]"

definition warning_sign :: pystr where
  "warning_sign = [9888, 65039]"

definition thinking_face :: pystr where
  "thinking_face = [129300]"

text \<open>\<^verbatim>\<open>str.isspace\<close> for one character: the code points Python treats as whitespace in
  \<^verbatim>\<open>split()\<close> and \<^verbatim>\<open>strip()\<close>.\<close>

definition isspace :: "nat \<Rightarrow> bool" where
  "isspace c \<longleftrightarrow>
     (9 \<le> c \<and> c \<le> 13) \<or> (28 \<le> c \<and> c \<le> 32) \<or> c = 133 \<or> c = 160 \<or> c = 5760 \<or>
     (8192 \<le> c \<and> c \<le> 8202) \<or> c = 8232 \<or> c = 8233 \<or> c = 8239 \<or> c = 8287 \<or> c = 12288"

text \<open>\<^verbatim>\<open>s.split()\<close>: the maximal runs of non-whitespace characters, in order. The first
  argument is the word being read.\<close>

fun split_words :: "pystr \<Rightarrow> pystr \<Rightarrow> pystr list" where
  "split_words w [] = (if w = [] then [] else [w])"
| "split_words w (c # cs) =
     (if isspace c then (if w = [] then split_words [] cs else w # split_words [] cs)
      else split_words (w @ [c]) cs)"

definition py_split :: "pystr \<Rightarrow> pystr list" where
  "py_split s = split_words [] s"

text \<open>\<^verbatim>\<open>s.split(sep)\<close> for a one-character separator: never empty, one more segment than
  there are separators.\<close>

fun split_on :: "nat \<Rightarrow> pystr \<Rightarrow> pystr list" where
  "split_on sep [] = [[]]"
| "split_on sep (c # cs) =
     (if c = sep then [] # split_on sep cs
      else (let r = split_on sep cs in (c # hd r) # tl r))"

text \<open>\<^verbatim>\<open>sep.join(xs)\<close>.\<close>

fun join :: "pystr \<Rightarrow> pystr list \<Rightarrow> pystr" where
  "join sep [] = []"
| "join sep [x] = x"
| "join sep (x # y # ys) = x @ sep @ join sep (y # ys)"

definition py_strip :: "pystr \<Rightarrow> pystr" where
  "py_strip s = rev (dropWhile isspace (rev (dropWhile isspace s)))"

definition startswith :: "pystr \<Rightarrow> pystr \<Rightarrow> bool" where
  "startswith s p \<longleftrightarrow> take (length p) s = p"

text \<open>The slice \<^verbatim>\<open>xs[-n:]\<close> for an integer \<open>n\<close>: the last \<open>n\<close> elements when \<open>n\<close> is
  positive (all of them when there are fewer), the whole list when \<open>n = 0\<close> (the slice is
  then \<^verbatim>\<open>xs[0:]\<close>), and the list without its first \<open>-n\<close> elements when \<open>n\<close> is negative.\<close>

definition slice_last :: "int \<Rightarrow> 'a list \<Rightarrow> 'a list" where
  "slice_last n xs = (if 0 < n then drop (length xs - nat n) xs else drop (nat (- n)) xs)"

section \<open>The rolling buffer: \<^verbatim>\<open>LiveMarkdownStreamRenderer\<close>\<close>

record LiveMarkdownStreamRenderer =
  max_visible_lines :: int
  rolling_buffer :: "pystr list"
  full_content :: pystr
  current_line :: pystr
  word_count :: nat

definition new_renderer :: "int \<Rightarrow> LiveMarkdownStreamRenderer" where
  "new_renderer n =
     \<lparr>max_visible_lines = n, rolling_buffer = [], full_content = [], current_line = [],
      word_count = 0\<rparr>"

definition reset :: "LiveMarkdownStreamRenderer \<Rightarrow> LiveMarkdownStreamRenderer" where
  "reset r = r\<lparr>rolling_buffer := [], full_content := [], current_line := [], word_count := 0\<rparr>"

definition add_chunk :: "pystr \<Rightarrow> LiveMarkdownStreamRenderer \<Rightarrow> LiveMarkdownStreamRenderer" where
  "add_chunk chunk r =
     (let full = full_content r @ chunk;
          cur = current_line r @ chunk;
          wc = length (py_split full);
          lines = split_on newline cur;
          buf = (if newline \<in> set cur then rolling_buffer r @ butlast lines
                 else rolling_buffer r);
          cur' = (if newline \<in> set cur then last lines else cur);
          buf' = (if max_visible_lines r < int (length buf)
                  then slice_last (max_visible_lines r) buf else buf)
      in r\<lparr>rolling_buffer := buf', full_content := full, current_line := cur',
           word_count := wc\<rparr>)"

text \<open>The list \<^verbatim>\<open>display_lines[-max_visible_lines:]\<close> that \<^verbatim>\<open>get_streaming_content\<close>
  joins: the completed lines, then the trailing line with the cursor when it is not empty.\<close>

definition display_lines :: "LiveMarkdownStreamRenderer \<Rightarrow> pystr list" where
  "display_lines r =
     slice_last (max_visible_lines r)
       (rolling_buffer r @ (if current_line r \<noteq> [] then [current_line r @ cursor] else []))"

definition connecting_placeholder :: pystr where
  "connecting_placeholder = thinking_face @ py '' Connecting to AI...'' @ cursor"

text \<open>\<^verbatim>\<open>get_streaming_content\<close> and \<^verbatim>\<open>get_final_content\<close> wrap their text in a
  \<^verbatim>\<open>Markdown\<close> (or, failing that, a \<^verbatim>\<open>Text\<close>) renderable; the model returns the text
  that is wrapped.\<close>

definition get_streaming_content :: "LiveMarkdownStreamRenderer \<Rightarrow> pystr" where
  "get_streaming_content r =
     (let buffer_content = join [newline] (display_lines r)
      in if py_strip buffer_content = [] then connecting_placeholder else buffer_content)"

definition get_final_content :: "LiveMarkdownStreamRenderer \<Rightarrow> pystr" where
  "get_final_content r = full_content r"

definition get_word_count :: "LiveMarkdownStreamRenderer \<Rightarrow> nat" where
  "get_word_count r = word_count r"

text \<open>Feeding a sequence of fragments, one \<^verbatim>\<open>add_chunk\<close> call each, in arrival order.\<close>

definition feed :: "pystr list \<Rightarrow> LiveMarkdownStreamRenderer \<Rightarrow> LiveMarkdownStreamRenderer" where
  "feed chunks r = foldl (\<lambda>r c. add_chunk c r) r chunks"

section \<open>Configuration: \<^verbatim>\<open>Config\<close>\<close>

definition MAX_SHELL_CONTEXT :: nat where
  "MAX_SHELL_CONTEXT = 10"

definition MAX_CONVERSATION_HISTORY :: nat where
  "MAX_CONVERSATION_HISTORY = 20"

definition CONTEXT_FOR_AI :: nat where
  "CONTEXT_FOR_AI = 5"

section \<open>The context store: \<^verbatim>\<open>ContextManager\<close>\<close>

text \<open>A shell entry is the dictionary \<^verbatim>\<open>add_shell_context\<close> builds; \<open>epoch_time\<close> is the
  float \<^verbatim>\<open>datetime.now().timestamp()\<close>, of which only the order is used.\<close>

record context_entry =
  timestamp :: pystr
  command :: pystr
  entry_output :: pystr
  cwd :: pystr
  epoch_time :: real

record message =
  role :: pystr
  content :: pystr

record ContextManager =
  shell_context :: "context_entry list"
  conversation_history :: "message list"

text \<open>What one call reads from its environment: the clock as \<^verbatim>\<open>%H:%M:%S\<close>, as seconds
  since the epoch and in ISO format, and the working directory.\<close>

record environment =
  now_hms :: pystr
  now_epoch :: real
  now_iso :: pystr
  getcwd :: pystr

definition new_ContextManager :: ContextManager where
  "new_ContextManager = \<lparr>shell_context = [], conversation_history = []\<rparr>"

definition context_entry_of :: "environment \<Rightarrow> pystr \<Rightarrow> pystr \<Rightarrow> context_entry" where
  "context_entry_of env cmd out =
     \<lparr>timestamp = now_hms env, command = cmd, entry_output = out, cwd = getcwd env,
      epoch_time = now_epoch env\<rparr>"

definition add_shell_context ::
  "environment \<Rightarrow> pystr \<Rightarrow> pystr \<Rightarrow> ContextManager \<Rightarrow> ContextManager" where
  "add_shell_context env cmd out cm =
     (let appended = shell_context cm @ [context_entry_of env cmd out]
      in cm\<lparr>shell_context :=
              (if MAX_SHELL_CONTEXT < length appended then tl appended else appended)\<rparr>)"

text \<open>\<^verbatim>\<open>sorted(shell_context, key=epoch_time, reverse=True)\<close>: descending in the key, entries
  with equal keys in their original order.\<close>

definition recent_contexts :: "context_entry list \<Rightarrow> context_entry list" where
  "recent_contexts entries = rev (sort_key epoch_time (rev entries))"

text \<open>Decimal digits of a number, for the f-string \<^verbatim>\<open>#{i+1}\<close>.\<close>

fun str_nat :: "nat \<Rightarrow> pystr" where
  "str_nat n = (if n < 10 then [48 + n] else str_nat (n div 10) @ [48 + n mod 10])"

declare str_nat.simps [simp del]

definition priority_marker :: "nat \<Rightarrow> pystr" where
  "priority_marker i =
     (if i = 0 then py ''>>> LATEST:'' else py ''>>> #'' @ str_nat (i + 1) @ py '':'')"

definition priority_parts :: "nat \<Rightarrow> context_entry \<Rightarrow> pystr list" where
  "priority_parts i entry =
     [[newline] @ priority_marker i @ py '' ['' @ timestamp entry @ py ''] In: '' @ cwd entry,
      py ''Command: '' @ command entry] @
     (if entry_output entry \<noteq> [] then
        (let max_length = (if i = 0 then 800 else 400);
             out = (if max_length < length (entry_output entry)
                    then take max_length (entry_output entry) @ py ''... (truncated)''
                    else entry_output entry)
         in [py ''Output: '' @ out])
      else []) @
     [replicate 50 45]"

definition older_part :: "context_entry \<Rightarrow> pystr" where
  "older_part entry =
     py ''['' @ timestamp entry @ py ''] '' @ command entry @ py '' -> '' @
     take 100 (entry_output entry) @ py ''...''"

definition context_header :: pystr where
  "context_header = py ''Recent shell activity (prioritized by recency):''"

definition priority_header :: pystr where
  "priority_header = [newline, 128293] @ py '' MOST RECENT COMMANDS:''"

definition older_header :: pystr where
  "older_header = [newline, 128203] @ py '' ADDITIONAL CONTEXT (older commands):''"

definition context_note :: pystr where
  "context_note = [newline, 128161] @
     py '' NOTE: When user asks about errors or issues, prioritize the LATEST/MOST RECENT commands above.''"

definition context_parts :: "context_entry list \<Rightarrow> pystr list" where
  "context_parts entries =
     (let recent = recent_contexts entries;
          priority_contexts = take 3 recent;
          older_contexts = drop 3 (take CONTEXT_FOR_AI recent)
      in [context_header] @
         (if priority_contexts \<noteq> []
          then priority_header #
               concat (map (\<lambda>(i, entry). priority_parts i entry) (enumerate 0 priority_contexts))
          else []) @
         (if older_contexts \<noteq> [] then older_header # map older_part older_contexts else []) @
         [context_note])"

definition build_context_for_ai :: "ContextManager \<Rightarrow> pystr" where
  "build_context_for_ai cm =
     (if shell_context cm = [] then [] else join [newline] (context_parts (shell_context cm)))"

definition add_conversation :: "pystr \<Rightarrow> pystr \<Rightarrow> ContextManager \<Rightarrow> ContextManager" where
  "add_conversation user_message ai_response cm =
     (let history = conversation_history cm @
            [\<lparr>role = py ''user'', content = user_message\<rparr>,
             \<lparr>role = py ''assistant'', content = ai_response\<rparr>]
      in cm\<lparr>conversation_history :=
              (if MAX_CONVERSATION_HISTORY < length history
               then slice_last (int MAX_CONVERSATION_HISTORY) history else history)\<rparr>)"

section \<open>The chunk source: \<^verbatim>\<open>HybridShell.create_api_streaming_generator\<close>\<close>

text \<open>A decoded JSON value, as \<^verbatim>\<open>json.loads\<close> returns it; an object is the list of its
  keys with their values.\<close>

datatype json =
  JNull | JBool bool | JNum real | JStr pystr | JArr "json list" | JObj "(pystr \<times> json) list"

text \<open>An exception is its class and the text \<^verbatim>\<open>str(e)\<close>.\<close>

datatype exc_class =
  RequestException | UnicodeDecodeError | TypeError | AttributeError | KeyError | IndexError

datatype py_exception = Exc exc_class pystr

fun exc_str :: "py_exception \<Rightarrow> pystr" where
  "exc_str (Exc cls msg) = msg"

text \<open>The library functions the generator calls are parameters of the model:
  \<^verbatim>\<open>bytes.decode('utf-8')\<close>, which raises on bytes that are not UTF-8; \<^verbatim>\<open>json.loads\<close>,
  with \<open>None\<close> for \<^verbatim>\<open>JSONDecodeError\<close>; and the message of the exception the interpreter
  raises for an operation a value does not support.\<close>

record runtime =
  decode_utf8 :: "string \<Rightarrow> py_exception + pystr"
  json_loads :: "pystr \<Rightarrow> json option"
  error_message :: "exc_class \<Rightarrow> json \<Rightarrow> pystr"

definition raise :: "runtime \<Rightarrow> exc_class \<Rightarrow> json \<Rightarrow> py_exception" where
  "raise rt cls v = Exc cls (error_message rt cls v)"

text \<open>\<^verbatim>\<open>k in s\<close> on strings.\<close>

fun contains :: "pystr \<Rightarrow> pystr \<Rightarrow> bool" where
  "contains [] k = (k = [])"
| "contains (c # cs) k = (startswith (c # cs) k \<or> contains cs k)"

text \<open>\<^verbatim>\<open>key in v\<close>, \<^verbatim>\<open>v[key]\<close>, \<^verbatim>\<open>len(v)\<close>, \<^verbatim>\<open>v[0]\<close> and \<^verbatim>\<open>v.get(key, default)\<close> on a
  decoded JSON value, with the exception Python raises where the value does not support
  the operation.\<close>

fun py_in :: "runtime \<Rightarrow> pystr \<Rightarrow> json \<Rightarrow> py_exception + bool" where
  "py_in rt key (JObj kvs) = Inr (key \<in> set (map fst kvs))"
| "py_in rt key (JArr xs) = Inr (JStr key \<in> set xs)"
| "py_in rt key (JStr s) = Inr (contains s key)"
| "py_in rt key v = Inl (raise rt TypeError v)"

fun py_getitem :: "runtime \<Rightarrow> pystr \<Rightarrow> json \<Rightarrow> py_exception + json" where
  "py_getitem rt key (JObj kvs) =
     (case map_of kvs key of Some v \<Rightarrow> Inr v | None \<Rightarrow> Inl (raise rt KeyError (JStr key)))"
| "py_getitem rt key v = Inl (raise rt TypeError v)"

fun py_len :: "runtime \<Rightarrow> json \<Rightarrow> py_exception + nat" where
  "py_len rt (JObj kvs) = Inr (length (remdups (map fst kvs)))"
| "py_len rt (JArr xs) = Inr (length xs)"
| "py_len rt (JStr s) = Inr (length s)"
| "py_len rt v = Inl (raise rt TypeError v)"

fun py_getitem0 :: "runtime \<Rightarrow> json \<Rightarrow> py_exception + json" where
  "py_getitem0 rt (JArr xs) =
     (case xs of [] \<Rightarrow> Inl (raise rt IndexError (JArr xs)) | x # _ \<Rightarrow> Inr x)"
| "py_getitem0 rt (JStr s) =
     (case s of [] \<Rightarrow> Inl (raise rt IndexError (JStr s)) | c # _ \<Rightarrow> Inr (JStr [c]))"
| "py_getitem0 rt (JObj kvs) = Inl (raise rt KeyError (JObj kvs))"
| "py_getitem0 rt v = Inl (raise rt TypeError v)"

fun py_get :: "runtime \<Rightarrow> pystr \<Rightarrow> json \<Rightarrow> json \<Rightarrow> py_exception + json" where
  "py_get rt key dflt (JObj kvs) =
     Inr (case map_of kvs key of Some v \<Rightarrow> v | None \<Rightarrow> dflt)"
| "py_get rt key dflt v = Inl (raise rt AttributeError v)"

text \<open>Truth value of a decoded JSON value, as \<^verbatim>\<open>if content:\<close> tests it.\<close>

fun truthy :: "json \<Rightarrow> bool" where
  "truthy JNull = False"
| "truthy (JBool b) = b"
| "truthy (JNum x) = (x \<noteq> 0)"
| "truthy (JStr s) = (s \<noteq> [])"
| "truthy (JArr xs) = (xs \<noteq> [])"
| "truthy (JObj kvs) = (kvs \<noteq> [])"

text \<open>What the loop body does with one delivered line: go on to the next line, leave the
  loop, yield a value and go on, or raise into the generator's outer handler.\<close>

datatype line_step = Skip | Break | Content json | Failure py_exception

definition frame_content :: "runtime \<Rightarrow> json \<Rightarrow> line_step" where
  "frame_content rt chunk_data =
     (case py_in rt (py ''choices'') chunk_data of
        Inl e \<Rightarrow> Failure e
      | Inr False \<Rightarrow> Skip
      | Inr True \<Rightarrow>
         (case py_getitem rt (py ''choices'') chunk_data of
            Inl e \<Rightarrow> Failure e
          | Inr choices \<Rightarrow>
             (case py_len rt choices of
                Inl e \<Rightarrow> Failure e
              | Inr n \<Rightarrow>
                 if 0 < n then
                   (case py_getitem0 rt choices of
                      Inl e \<Rightarrow> Failure e
                    | Inr choice \<Rightarrow>
                       (case py_get rt (py ''delta'') (JObj []) choice of
                          Inl e \<Rightarrow> Failure e
                        | Inr delta \<Rightarrow>
                           (case py_get rt (py ''content'') (JStr []) delta of
                              Inl e \<Rightarrow> Failure e
                            | Inr c \<Rightarrow> if truthy c then Content c else Skip)))
                 else Skip)))"

definition handle_line :: "runtime \<Rightarrow> string \<Rightarrow> line_step" where
  "handle_line rt line =
     (if line = [] then Skip
      else case decode_utf8 rt line of
             Inl e \<Rightarrow> Failure e
           | Inr line_str \<Rightarrow>
               if \<not> startswith line_str (py ''data: '') then Skip
               else let json_str = drop 6 line_str
                    in if py_strip json_str = py ''[DONE]'' then Break
                       else (case json_loads rt json_str of
                               None \<Rightarrow> Skip
                             | Some chunk_data \<Rightarrow> frame_content rt chunk_data))"

text \<open>The HTTP exchange as the generator sees it: \<^verbatim>\<open>requests.post\<close> or
  \<^verbatim>\<open>raise_for_status\<close> raises, or \<^verbatim>\<open>iter_lines\<close> delivers lines and then ends or raises.
  The service is a parameter: what it answers to a request with the given messages.\<close>

datatype http_response = PostFailed py_exception | Streamed "string list" "py_exception option"

type_synonym service = "message list \<Rightarrow> http_response"

definition error_chunk :: "py_exception \<Rightarrow> json" where
  "error_chunk e = JStr (py ''Error: '' @ exc_str e)"

text \<open>The values the generator yields, in order; it is a finite sequence, and the generator
  itself never raises an \<^verbatim>\<open>Exception\<close>: its outer handler yields the error text.\<close>

fun iter_lines :: "runtime \<Rightarrow> string list \<Rightarrow> py_exception option \<Rightarrow> json list" where
  "iter_lines rt [] None = []"
| "iter_lines rt [] (Some e) = [error_chunk e]"
| "iter_lines rt (line # rest) ending =
     (case handle_line rt line of
        Skip \<Rightarrow> iter_lines rt rest ending
      | Break \<Rightarrow> []
      | Content c \<Rightarrow> c # iter_lines rt rest ending
      | Failure e \<Rightarrow> [error_chunk e])"

definition create_api_streaming_generator ::
  "runtime \<Rightarrow> service \<Rightarrow> message list \<Rightarrow> json list" where
  "create_api_streaming_generator rt http msgs =
     (case http msgs of
        PostFailed e \<Rightarrow> [error_chunk e]
      | Streamed lines ending \<Rightarrow> iter_lines rt lines ending)"

section \<open>The stream session: \<^verbatim>\<open>StreamingUIManager\<close>\<close>

record cancelled_state =
  saved_user_message :: pystr
  partial_content :: pystr
  messages :: "message list"
  saved_timestamp :: pystr
  saved_word_count :: nat

record StreamingUIManager =
  markdown_renderer :: LiveMarkdownStreamRenderer
  cancelled_stream_state :: "cancelled_state option"

definition new_StreamingUIManager :: StreamingUIManager where
  "new_StreamingUIManager = \<lparr>markdown_renderer = new_renderer 20, cancelled_stream_state = None\<rparr>"

text \<open>What one pull on the iterator \<^verbatim>\<open>api_call_func()\<close> gives the session's loop: a value,
  an exception, or the user's interrupt arriving at the pull. The end of the list is the end
  of the iteration. \<^verbatim>\<open>api_call_func\<close> is called once, when the loop starts, and may read the
  state of the manager at that moment.\<close>

datatype event = Chunk json | Raised py_exception | KeyboardInterrupt

type_synonym api_call = "StreamingUIManager \<Rightarrow> event list"

datatype loop_end = Exhausted | Interrupted | Faulted py_exception

text \<open>The \<^verbatim>\<open>for chunk in api_call_func()\<close> loop, which is the same in
  \<^verbatim>\<open>stream_ai_response_with_live_markdown\<close> and in \<^verbatim>\<open>_resume_cancelled_stream\<close> up to the
  labels of the progress display. \<^verbatim>\<open>add_chunk\<close> starts with \<^verbatim>\<open>self.full_content += chunk\<close>,
  which raises a \<^verbatim>\<open>TypeError\<close>, before anything is changed, when the value is not a string.\<close>

fun consume ::
  "runtime \<Rightarrow> event list \<Rightarrow> LiveMarkdownStreamRenderer \<Rightarrow> loop_end \<times> LiveMarkdownStreamRenderer"
  where
  "consume rt [] r = (Exhausted, r)"
| "consume rt (KeyboardInterrupt # es) r = (Interrupted, r)"
| "consume rt (Raised e # es) r = (Faulted e, r)"
| "consume rt (Chunk (JStr chunk) # es) r = consume rt es (add_chunk chunk r)"
| "consume rt (Chunk v # es) r = (Faulted (raise rt TypeError v), r)"

definition response_cancelled :: pystr where
  "response_cancelled = warning_sign @ py '' Response cancelled''"



definition stream_ai_response_with_live_markdown ::
  "runtime \<Rightarrow> api_call \<Rightarrow> StreamingUIManager \<Rightarrow> pystr \<times> StreamingUIManager" where
  "stream_ai_response_with_live_markdown rt api_call_func ui =
     (let started = ui\<lparr>markdown_renderer := reset (markdown_renderer ui)\<rparr>
      in case consume rt (api_call_func started) (markdown_renderer started) of
           (Exhausted, r) \<Rightarrow> (full_content r, started\<lparr>markdown_renderer := r\<rparr>)
         | (Interrupted, r) \<Rightarrow> (response_cancelled, started\<lparr>markdown_renderer := r\<rparr>)
         | (Faulted e, r) \<Rightarrow>
             (cross_mark @ py '' Error: '' @ exc_str e, started\<lparr>markdown_renderer := r\<rparr>))"

definition save_cancelled_state ::
  "environment \<Rightarrow> pystr \<Rightarrow> pystr \<Rightarrow> message list \<Rightarrow> StreamingUIManager \<Rightarrow> StreamingUIManager"
  where
  "save_cancelled_state env user_message partial msgs ui =
     ui\<lparr>cancelled_stream_state :=
          Some \<lparr>saved_user_message = user_message, partial_content = partial, messages = msgs,
                saved_timestamp = now_iso env,
                saved_word_count = get_word_count (markdown_renderer ui)\<rparr>\<rparr>"






section \<open>The interactive shell: \<^verbatim>\<open>HybridShell\<close>\<close>

record HybridShell =
  streaming_ui :: StreamingUIManager
  context_manager :: ContextManager

definition new_HybridShell :: HybridShell where
  "new_HybridShell = \<lparr>streaming_ui = new_StreamingUIManager, context_manager = new_ContextManager\<rparr>"

text \<open>The pulls of one exchange: the values of the generator, cut short by the user's
  interrupt after \<open>n\<close> of them when there is one.\<close>

definition pulls :: "nat option \<Rightarrow> json list \<Rightarrow> event list" where
  "pulls interrupt chunks =
     (case interrupt of
        None \<Rightarrow> map Chunk chunks
      | Some n \<Rightarrow> map Chunk (take n chunks) @ [KeyboardInterrupt])"

definition system_message :: "pystr \<Rightarrow> message" where
  "system_message context =
     \<lparr>role = py ''system'',
      content =
        py ''You are a helpful AI assistant integrated with a shell environment. '' @ context @
        [newline, newline] @
        py ''Use this context to provide relevant answers about files, directories, or commands the user has executed.''\<rparr>"

definition request_messages :: "pystr \<Rightarrow> ContextManager \<Rightarrow> message list" where
  "request_messages user_message cm =
     (let context = build_context_for_ai cm
      in (if context \<noteq> [] then [system_message context] else []) @
         conversation_history cm @ [\<lparr>role = py ''user'', content = user_message\<rparr>])"

text \<open>The test \<^verbatim>\<open>response and not response.startswith("\<dots>") and not
  response.startswith("\<dots>")\<close> on the cross mark and the warning sign.\<close>

definition completed_turn :: "pystr \<Rightarrow> bool" where
  "completed_turn response \<longleftrightarrow>
     response \<noteq> [] \<and> \<not> startswith response cross_mark \<and> \<not> startswith response warning_sign"

text \<open>\<^verbatim>\<open>HybridShell.stream_ai_response\<close>. The session returns a string on every path of the
  loop, so the method's own \<^verbatim>\<open>except Exception\<close> has nothing to catch here.\<close>

definition stream_ai_response ::
  "runtime \<Rightarrow> environment \<Rightarrow> service \<Rightarrow> nat option \<Rightarrow> pystr \<Rightarrow> HybridShell \<Rightarrow>
   pystr \<times> HybridShell" where
  "stream_ai_response rt env http interrupt user_message sh =
     (let msgs = request_messages user_message (context_manager sh);
          api_streaming_func =
            (\<lambda>ui. pulls interrupt (create_api_streaming_generator rt http msgs));
          (response, ui) =
            stream_ai_response_with_live_markdown rt api_streaming_func (streaming_ui sh)
      in if response = response_cancelled then
           (response,
            sh\<lparr>streaming_ui :=
                 save_cancelled_state env user_message (full_content (markdown_renderer ui))
                   msgs ui\<rparr>)
         else if completed_turn response then
           (response,
            sh\<lparr>streaming_ui := ui,
               context_manager := add_conversation user_message response (context_manager sh)\<rparr>)
         else (response, sh\<lparr>streaming_ui := ui\<rparr>))"



section \<open>Definitions for the statements and the examples\<close>

text \<open>No stored line and no trailing line of the rolling buffer holds a line break.\<close>

definition clean :: "LiveMarkdownStreamRenderer \<Rightarrow> bool" where
  "clean r \<longleftrightarrow>
     (\<forall>l\<in>set (rolling_buffer r). newline \<notin> set l) \<and> newline \<notin> set (current_line r)"

text \<open>A sequence of \<^verbatim>\<open>add_shell_context\<close> calls, each with what it reads from its environment,
  and the entries those calls build.\<close>

definition add_shell_entries ::
  "(environment \<times> pystr \<times> pystr) list \<Rightarrow> ContextManager \<Rightarrow> ContextManager" where
  "add_shell_entries calls cm =
     foldl (\<lambda>cm (env, cmd, out). add_shell_context env cmd out cm) cm calls"

definition entries_of :: "(environment \<times> pystr \<times> pystr) list \<Rightarrow> context_entry list" where
  "entries_of calls = map (\<lambda>(env, cmd, out). context_entry_of env cmd out) calls"

text \<open>The value at \<^verbatim>\<open>choices[0].delta.content\<close> of a decoded frame, when the frame has
  that shape.\<close>

definition delta_content :: "json \<Rightarrow> json option" where
  "delta_content chunk_data =
     (case chunk_data of
        JObj obj \<Rightarrow>
          (case map_of obj (py ''choices'') of
             Some (JArr (JObj choice # rest)) \<Rightarrow>
               (case map_of choice (py ''delta'') of
                  Some (JObj delta) \<Rightarrow> map_of delta (py ''content'')
                | _ \<Rightarrow> None)
           | _ \<Rightarrow> None)
      | _ \<Rightarrow> None)"

text \<open>The values the lines of a response make the generator yield, and the lines that
  neither end the iteration nor raise.\<close>

definition contents_of :: "runtime \<Rightarrow> string list \<Rightarrow> json list" where
  "contents_of rt lines =
     concat (map (\<lambda>line. case handle_line rt line of Content c \<Rightarrow> [c] | _ \<Rightarrow> []) lines)"

definition passes :: "runtime \<Rightarrow> string \<Rightarrow> bool" where
  "passes rt line \<longleftrightarrow>
     (case handle_line rt line of Skip \<Rightarrow> True | Content c \<Rightarrow> True | _ \<Rightarrow> False)"

text \<open>A runtime for the examples: every byte is read as one character, and the JSON reader
  knows the frames the examples use.\<close>

definition content_frame :: "json \<Rightarrow> json" where
  "content_frame c = JObj [(py ''choices'', JArr [JObj [(py ''delta'', JObj [(py ''content'', c)])]])]"

definition example_runtime :: runtime where
  "example_runtime =
     \<lparr>decode_utf8 = (\<lambda>bytes. Inr (map of_char bytes)),
      json_loads = (\<lambda>s.
        if s = py ''{\"choices\":[{\"delta\":{\"content\":\"The answer\"}}]}''
        then Some (content_frame (JStr (py ''The answer'')))
        else if s = py ''{\"choices\":[{\"delta\":{\"content\":\" is 4\"}}]}''
        then Some (content_frame (JStr (py '' is 4'')))
        else if s = py ''{\"choices\":[{\"delta\":{\"content\":\"\"}}]}''
        then Some (content_frame (JStr []))
        else if s = py ''{\"choices\":[{\"delta\":{\"content\":5}}]}''
        then Some (content_frame (JNum 5))
        else if s = py ''{\"choices\":[{\"delta\":{\"content\":\"'' @ [92] @ py ''u274c no\"}}]}''
        then Some (content_frame (JStr (cross_mark @ py '' no'')))
        else None),
      error_message = (\<lambda>cls v. py ''unsupported operand'')\<rparr>"

text \<open>A run of pulls that each deliver a text fragment.\<close>

definition text_chunks :: "pystr list \<Rightarrow> event list" where
  "text_chunks fragments = map (\<lambda>f. Chunk (JStr f)) fragments"

text \<open>An environment and a service for the examples: the service answers every request with
  the fragments \<^verbatim>\<open>"The answer"\<close> and \<^verbatim>\<open>" is 4"\<close> and the terminator.\<close>

definition example_environment :: environment where
  "example_environment =
     \<lparr>now_hms = py ''10:00:00'', now_epoch = 1735725600, now_iso = py ''2025-01-01T10:00:00'',
      getcwd = py ''/home''\<rparr>"


section \<open>Properties of the rolling buffer\<close>

lemma full_content_add_chunk: "full_content (add_chunk c r) = full_content r @ c"
  by (simp add: add_chunk_def Let_def)

lemma max_visible_lines_add_chunk: "max_visible_lines (add_chunk c r) = max_visible_lines r"
  by (simp add: add_chunk_def Let_def)

lemma feed_snoc: "feed (cs @ [c]) r = add_chunk c (feed cs r)"
  by (simp add: feed_def)

lemma full_content_feed: "full_content (feed cs r) = full_content r @ concat cs"
  by (induction cs rule: rev_induct) (simp_all add: feed_snoc full_content_add_chunk, simp add: feed_def)

lemma max_visible_lines_feed: "max_visible_lines (feed cs r) = max_visible_lines r"
  by (induction cs rule: rev_induct) (simp_all add: feed_snoc max_visible_lines_add_chunk, simp add: feed_def)

lemma split_on_not_Nil: "split_on sep s \<noteq> []"
  by (induction s) (simp_all add: Let_def)

lemma split_on_clean: "l \<in> set (split_on sep s) \<Longrightarrow> sep \<notin> set l"
proof (induction s arbitrary: l)
  case Nil
  then show ?case by simp
next
  case (Cons c cs)
  obtain h t where r: "split_on sep cs = h # t"
    using split_on_not_Nil [of sep cs] by (cases "split_on sep cs") auto
  show ?case
  proof (cases "c = sep")
    case True
    with Cons show ?thesis by auto
  next
    case False
    with Cons.prems r have "l = c # h \<or> l \<in> set t" by (simp add: Let_def)
    with Cons.IH [of h] Cons.IH [of l] r False show ?thesis by auto
  qed
qed

lemma split_on_no_sep: "sep \<notin> set s \<Longrightarrow> split_on sep s = [s]"
  by (induction s) (auto simp: Let_def)

lemma split_on_append_sep:
  "sep \<notin> set x \<Longrightarrow> split_on sep (x @ sep # rest) = x # split_on sep rest"
  by (induction x) (simp_all add: Let_def)

lemma split_on_join:
  "ls \<noteq> [] \<Longrightarrow> \<forall>l\<in>set ls. sep \<notin> set l \<Longrightarrow> split_on sep (join [sep] ls) = ls"
proof (induction ls)
  case Nil
  then show ?case by simp
next
  case (Cons x ys)
  show ?case
  proof (cases ys)
    case Nil
    with Cons.prems show ?thesis by (simp add: split_on_no_sep)
  next
    case (Cons y zs)
    with Cons.prems Cons.IH show ?thesis
      by (simp add: split_on_append_sep)
  qed
qed

lemma length_slice_last: "1 \<le> n \<Longrightarrow> length (slice_last n xs) \<le> nat n"
  by (simp add: slice_last_def)

lemma slice_last_pos: "1 \<le> n \<Longrightarrow> slice_last n xs = drop (length xs - nat n) xs"
  by (simp add: slice_last_def)

lemma set_slice_last: "set (slice_last n xs) \<subseteq> set xs"
  by (auto simp: slice_last_def dest: in_set_dropD)

lemma rolling_buffer_add_chunk:
  "1 \<le> max_visible_lines r \<Longrightarrow>
   rolling_buffer (add_chunk c r) =
     (let stored = rolling_buffer r @ butlast (split_on newline (current_line r @ c))
      in drop (length stored - nat (max_visible_lines r)) stored)"
  by (auto simp: add_chunk_def Let_def slice_last_pos split_on_no_sep)

lemma length_rolling_buffer_add_chunk:
  "1 \<le> max_visible_lines r \<Longrightarrow>
   length (rolling_buffer (add_chunk c r)) \<le> nat (max_visible_lines r)"
  by (simp add: rolling_buffer_add_chunk Let_def)

lemma clean_reset: "clean (reset r)"
  by (simp add: clean_def reset_def)

lemma current_line_add_chunk:
  "current_line (add_chunk c r) = last (split_on newline (current_line r @ c))"
  by (simp add: add_chunk_def Let_def split_on_no_sep)

lemma set_rolling_buffer_add_chunk:
  "set (rolling_buffer (add_chunk c r)) \<subseteq>
     set (rolling_buffer r) \<union> set (butlast (split_on newline (current_line r @ c)))"
proof -
  let ?b = "rolling_buffer r @ butlast (split_on newline (current_line r @ c))"
  have 1: "set (slice_last (max_visible_lines r) ?b) \<subseteq> set ?b"
    by (rule set_slice_last)
  have 2: "set (slice_last (max_visible_lines r) (rolling_buffer r)) \<subseteq> set (rolling_buffer r)"
    by (rule set_slice_last)
  have "rolling_buffer (add_chunk c r) = ?b \<or>
        rolling_buffer (add_chunk c r) = slice_last (max_visible_lines r) ?b \<or>
        rolling_buffer (add_chunk c r) = rolling_buffer r \<or>
        rolling_buffer (add_chunk c r) = slice_last (max_visible_lines r) (rolling_buffer r)"
    by (simp add: add_chunk_def Let_def)
  with 1 2 show ?thesis by auto
qed

lemma clean_add_chunk: "clean r \<Longrightarrow> clean (add_chunk c r)"
proof -
  assume c: "clean r"
  let ?lines = "split_on newline (current_line r @ c)"
  have l: "\<forall>l\<in>set ?lines. newline \<notin> set l"
    using split_on_clean by blast
  have "last ?lines \<in> set ?lines" by (simp add: split_on_not_Nil)
  with l have la: "newline \<notin> set (current_line (add_chunk c r))"
    by (simp add: current_line_add_chunk)
  have bl: "\<forall>l\<in>set (butlast ?lines). newline \<notin> set l"
    using l by (meson in_set_butlastD)
  have "\<forall>l\<in>set (rolling_buffer r) \<union> set (butlast ?lines). newline \<notin> set l"
    using c bl by (simp add: clean_def ball_Un)
  then have "\<forall>l\<in>set (rolling_buffer (add_chunk c r)). newline \<notin> set l"
    using set_rolling_buffer_add_chunk [of c r] by (meson subsetD)
  with la show ?thesis by (simp add: clean_def)
qed

lemma clean_feed: "clean r \<Longrightarrow> clean (feed cs r)"
  by (induction cs rule: rev_induct) (simp_all add: feed_snoc clean_add_chunk, simp add: feed_def)

lemma newline_notin_placeholder: "newline \<notin> set connecting_placeholder"
  by (simp add: connecting_placeholder_def thinking_face_def cursor_def py_def newline_def)

lemma view_lines:
  assumes "1 \<le> max_visible_lines r" and "clean r"
  shows "length (split_on newline (get_streaming_content r)) \<le> nat (max_visible_lines r)"
proof -
  let ?d = "display_lines r"
  have len: "length ?d \<le> nat (max_visible_lines r)"
    using assms(1) by (simp add: display_lines_def length_slice_last)
  have "\<forall>l\<in>set (rolling_buffer r @ (if current_line r \<noteq> [] then [current_line r @ cursor] else [])).
      newline \<notin> set l"
    using assms(2) by (auto simp: clean_def cursor_def newline_def)
  moreover have "set ?d \<subseteq>
      set (rolling_buffer r @ (if current_line r \<noteq> [] then [current_line r @ cursor] else []))"
    unfolding display_lines_def by (rule set_slice_last)
  ultimately have cl: "\<forall>l\<in>set ?d. newline \<notin> set l"
    by (meson subsetD)
  show ?thesis
  proof (cases "py_strip (join [newline] ?d) = []")
    case True
    then have "get_streaming_content r = connecting_placeholder"
      by (simp add: get_streaming_content_def)
    then show ?thesis
      using assms(1) by (simp add: split_on_no_sep newline_notin_placeholder)
  next
    case False
    then have v: "get_streaming_content r = join [newline] ?d"
      by (simp add: get_streaming_content_def)
    from False have "?d \<noteq> []" by (auto simp: py_strip_def)
    then have "split_on newline (join [newline] ?d) = ?d"
      using cl by (rule split_on_join)
    with v len show ?thesis by simp
  qed
qed


text \<open>
  Claim C3. For every finite sequence of fragments fed by \<^verbatim>\<open>add_chunk\<close> to a freshly reset
  rolling buffer, \<open>full_content\<close> is the concatenation of the fragments in arrival order,
  and one more \<^verbatim>\<open>add_chunk\<close> appends its fragment to the previous \<open>full_content\<close>, which
  stays a prefix.
\<close>

theorem full_content_is_concatenation:
  "full_content (feed chunks (reset r)) = concat chunks \<and>
   full_content (feed (chunks @ [c]) (reset r)) = full_content (feed chunks (reset r)) @ c"
  by (simp add: full_content_feed reset_def)

theorem full_content_is_concatenation_witness:
  "full_content (feed [py ''The answer'', py '' is'', py '' 4''] (reset (new_renderer 20))) =
     py ''The answer is 4''"
  using full_content_is_concatenation [of "[py ''The answer'', py '' is'', py '' 4'']" "new_renderer 20"]
  by (simp add: py_def)

text \<open>
  Claim C4. With \<open>max_visible_lines \<ge> 1\<close>, after any sequence of \<^verbatim>\<open>add_chunk\<close> calls on a
  reset buffer the store of completed lines holds at most \<open>max_visible_lines\<close> entries, and
  the streaming view has at most \<open>max_visible_lines\<close> lines in all, the trailing partial
  line with its cursor included; so it shows no more than \<open>max_visible_lines\<close> completed
  lines plus the trailing one. A further \<^verbatim>\<open>add_chunk\<close> leaves in the store the most recent
  \<open>max_visible_lines\<close> of the old entries followed by the newly completed lines: the oldest
  are dropped first.
\<close>

theorem streaming_view_bounded:
  assumes "1 \<le> max_visible_lines r"
  shows "(let r' = feed chunks (reset r); cap = nat (max_visible_lines r) in
          length (rolling_buffer r') \<le> cap \<and>
          length (split_on newline (get_streaming_content r')) \<le> cap \<and>
          rolling_buffer (add_chunk c r') =
            (let stored = rolling_buffer r' @ butlast (split_on newline (current_line r' @ c))
             in drop (length stored - cap) stored))"
proof -
  let ?r = "feed chunks (reset r)"
  have m: "max_visible_lines ?r = max_visible_lines r"
    by (simp add: max_visible_lines_feed reset_def)
  have c: "clean ?r"
    by (simp add: clean_feed clean_reset)
  have 1: "length (rolling_buffer ?r) \<le> nat (max_visible_lines r)"
  proof (cases chunks rule: rev_cases)
    case Nil
    then show ?thesis by (simp add: feed_def reset_def)
  next
    case (snoc cs x)
    have "max_visible_lines (feed cs (reset r)) = max_visible_lines r"
      by (simp add: max_visible_lines_feed reset_def)
    with assms snoc length_rolling_buffer_add_chunk [of "feed cs (reset r)" x]
    show ?thesis by (simp add: feed_snoc)
  qed
  have 2: "length (split_on newline (get_streaming_content ?r)) \<le> nat (max_visible_lines r)"
    using view_lines [of ?r] assms m c by simp
  have 3: "rolling_buffer (add_chunk c ?r) =
      (let stored = rolling_buffer ?r @ butlast (split_on newline (current_line ?r @ c))
       in drop (length stored - nat (max_visible_lines r)) stored)"
    using rolling_buffer_add_chunk [of ?r c] assms m by simp
  from 1 2 3 show ?thesis by (simp add: Let_def)
qed

theorem streaming_view_bounded_witness:
  "(let r' = feed [py ''a'' @ [newline] @ py ''b'' @ [newline] @ py ''c'' @ [newline] @ py ''d'']
               (reset (new_renderer 2))
    in length (rolling_buffer r') \<le> 2 \<and>
       length (split_on newline (get_streaming_content r')) \<le> 2 \<and>
       rolling_buffer r' = [py ''b'', py ''c''] \<and>
       get_streaming_content r' = py ''c'' @ [newline] @ py ''d'' @ cursor \<and>
       rolling_buffer (add_chunk (py ''e'' @ [newline]) r') = [py ''c'', py ''de''])"
  using streaming_view_bounded [of "new_renderer 2"
      "[py ''a'' @ [newline] @ py ''b'' @ [newline] @ py ''c'' @ [newline] @ py ''d'']"
      "py ''e'' @ [newline]"]
  by (simp add: feed_def add_chunk_def reset_def new_renderer_def py_def newline_def
      get_streaming_content_def display_lines_def slice_last_def cursor_def py_strip_def
      isspace_def py_split_def Let_def)

text \<open>
  Claim C5. The fragments \<^verbatim>\<open>"Hello "\<close>, \<^verbatim>\<open>"world\n"\<close>, \<^verbatim>\<open>"second "\<close>, \<^verbatim>\<open>"line"\<close> fed in
  that order to a reset buffer with \<open>max_visible_lines = 1\<close> give the streaming view
  \<^verbatim>\<open>"second line"\<close> followed by the cursor: the completed line \<^verbatim>\<open>"Hello world"\<close> is in
  the store and is not displayed. The final view is the full text
  \<^verbatim>\<open>"Hello world\nsecond line"\<close>.
\<close>

theorem scenario_max_visible_lines_1:
  "(let r = feed [py ''Hello '', py ''world'' @ [newline], py ''second '', py ''line'']
              (reset (new_renderer 1))
    in get_streaming_content r = py ''second line'' @ cursor \<and>
       rolling_buffer r = [py ''Hello world''] \<and>
       get_final_content r = py ''Hello world'' @ [newline] @ py ''second line'')"
  by (simp add: feed_def add_chunk_def reset_def new_renderer_def py_def newline_def
      get_streaming_content_def get_final_content_def display_lines_def slice_last_def
      cursor_def py_strip_def isspace_def py_split_def Let_def)

section \<open>Properties of the context store\<close>

lemma shell_context_add:
  assumes "length (shell_context cm) \<le> MAX_SHELL_CONTEXT"
  shows "shell_context (add_shell_context env cmd out cm) =
     drop (Suc (length (shell_context cm)) - MAX_SHELL_CONTEXT)
       (shell_context cm @ [context_entry_of env cmd out])"
proof (cases "length (shell_context cm) = MAX_SHELL_CONTEXT")
  case True
  have pos: "0 < MAX_SHELL_CONTEXT" by (simp add: MAX_SHELL_CONTEXT_def)
  with True have ne: "shell_context cm \<noteq> []" by auto
  from True have "Suc (length (shell_context cm)) - MAX_SHELL_CONTEXT = Suc 0" by simp
  with True ne pos show ?thesis
    by (simp add: add_shell_context_def Let_def drop_Suc)
next
  case False
  with assms have "length (shell_context cm) < MAX_SHELL_CONTEXT" by simp
  then show ?thesis
    by (simp add: add_shell_context_def Let_def)
qed

lemma add_shell_entries_snoc:
  "add_shell_entries (calls @ [(env, cmd, out)]) cm =
     add_shell_context env cmd out (add_shell_entries calls cm)"
  by (simp add: add_shell_entries_def)

lemma shell_context_entries:
  "shell_context (add_shell_entries calls new_ContextManager) =
     drop (length calls - MAX_SHELL_CONTEXT) (entries_of calls)"
proof (induction calls rule: rev_induct)
  case Nil
  then show ?case
    by (simp add: add_shell_entries_def entries_of_def new_ContextManager_def)
next
  case (snoc call calls)
  obtain env cmd out where call: "call = (env, cmd, out)"
    by (cases call) auto
  let ?cm = "add_shell_entries calls new_ContextManager"
  have len: "length (shell_context ?cm) = min (length calls) MAX_SHELL_CONTEXT"
    using snoc.IH by (simp add: entries_of_def)
  then have le: "length (shell_context ?cm) \<le> MAX_SHELL_CONTEXT" by simp
  have e: "entries_of (calls @ [(env, cmd, out)]) = entries_of calls @ [context_entry_of env cmd out]"
    by (simp add: entries_of_def)
  have l: "length (entries_of calls) = length calls"
    by (simp add: entries_of_def)
  show ?case
  proof (cases "length calls < MAX_SHELL_CONTEXT")
    case True
    with snoc.IH len le show ?thesis
      by (simp add: call add_shell_entries_snoc shell_context_add e)
  next
    case False
    with snoc.IH len le l show ?thesis
      by (simp add: call add_shell_entries_snoc shell_context_add e Suc_diff_le)
  qed
qed

text \<open>
  Claim C6. For every \<open>k \<ge> 1\<close>, after \<open>MAX_SHELL_CONTEXT + k\<close> calls of \<^verbatim>\<open>add_shell_context\<close>
  on an empty store exactly the entries of the last \<open>MAX_SHELL_CONTEXT\<close> calls remain, in
  the order of the calls. The entries' \<open>epoch_time\<close> values are arbitrary here: eviction
  follows insertion order, not the recorded time.
\<close>

theorem shell_context_fifo:
  assumes "length calls = MAX_SHELL_CONTEXT + k" and "1 \<le> k"
  shows "shell_context (add_shell_entries calls new_ContextManager) = drop k (entries_of calls) \<and>
         length (shell_context (add_shell_entries calls new_ContextManager)) = MAX_SHELL_CONTEXT"
  using assms by (simp add: shell_context_entries entries_of_def)


theorem shell_context_fifo_witness:
  "map command
     (shell_context
       (add_shell_entries
         (map (\<lambda>i. (\<lparr>now_hms = [], now_epoch = 100 - real i, now_iso = [], getcwd = []\<rparr>,
                    [i], [])) [0, 1, 2, 3, 4, 5, 6, 7, 8, 9, 10, 11])
         new_ContextManager)) =
   [[2], [3], [4], [5], [6], [7], [8], [9], [10], [11]]"
  using shell_context_fifo [of
      "map (\<lambda>i. (\<lparr>now_hms = [], now_epoch = 100 - real i, now_iso = [], getcwd = []\<rparr>,
                 [i], [])) [0, 1, 2, 3, 4, 5, 6, 7, 8, 9, 10, 11]" 2]
  by (simp add: MAX_SHELL_CONTEXT_def entries_of_def context_entry_of_def)

lemma mset_recent_contexts: "mset (recent_contexts es) = mset es"
  by (simp add: recent_contexts_def)

lemma length_recent_contexts: "length (recent_contexts es) = length es"
  by (simp add: recent_contexts_def)

lemma sorted_recent_contexts:
  "sorted_wrt (\<lambda>a b. epoch_time b \<le> epoch_time a) (recent_contexts es)"
proof -
  have "sorted (map epoch_time (sort_key epoch_time (rev es)))"
    by (rule sorted_sort_key)
  then have "sorted_wrt (\<lambda>a b. epoch_time a \<le> epoch_time b) (sort_key epoch_time (rev es))"
    by (simp add: sorted_map)
  then show ?thesis
    by (simp add: recent_contexts_def sorted_wrt_rev)
qed

lemma map_enumerate_nth:
  "map (\<lambda>(i, x). f i x) (enumerate 0 xs) = map (\<lambda>i. f i (xs ! i)) [0..<length xs]"
  by (rule nth_equalityI) (simp_all add: nth_enumerate_eq)

lemma drop_take_nth: "drop a (take b xs) = map ((!) xs) [a..<min b (length xs)]"
proof (rule nth_equalityI)
  show "length (drop a (take b xs)) = length (map ((!) xs) [a..<min b (length xs)])"
    by (simp add: min.commute)
next
  fix i
  assume "i < length (drop a (take b xs))"
  then have i: "a + i < min b (length xs)" by (simp add: less_diff_conv add.commute)
  then have "drop a (take b xs) ! i = xs ! (a + i)" by simp
  moreover have "map ((!) xs) [a..<min b (length xs)] ! i = xs ! (a + i)"
  proof -
    from i have "i < length [a..<min b (length xs)]" by (simp add: less_diff_conv add.commute)
    then have "map ((!) xs) [a..<min b (length xs)] ! i = xs ! ([a..<min b (length xs)] ! i)"
      by (rule nth_map)
    also from i have "[a..<min b (length xs)] ! i = a + i" by (rule nth_upt)
    finally show ?thesis .
  qed
  ultimately show "drop a (take b xs) ! i = map ((!) xs) [a..<min b (length xs)] ! i"
    by simp
qed

lemma take_nth: "take b xs = map ((!) xs) [0..<min b (length xs)]"
  using drop_take_nth [of 0 b xs] by simp

lemma priority_section:
  "concat (map (\<lambda>(i, entry). priority_parts i entry) (enumerate 0 (take 3 xs))) =
   concat (map (\<lambda>i. priority_parts i (xs ! i)) [0..<min 3 (length xs)])"
proof -
  have "map (\<lambda>(i, entry). priority_parts i entry) (enumerate 0 (take 3 xs)) =
        map (\<lambda>i. priority_parts i (take 3 xs ! i)) [0..<length (take 3 xs)]"
    by (rule map_enumerate_nth)
  also have "\<dots> = map (\<lambda>i. priority_parts i (xs ! i)) [0..<min 3 (length xs)]"
    by (simp add: min.commute)
  finally show ?thesis by simp
qed

lemma context_parts_ranked:
  assumes "es \<noteq> []"
  shows "context_parts es =
     [context_header, priority_header] @
     concat (map (\<lambda>i. priority_parts i (recent_contexts es ! i)) [0..<min 3 (length es)]) @
     (if 3 < length es
      then older_header #
           map (\<lambda>i. older_part (recent_contexts es ! i)) [3..<min CONTEXT_FOR_AI (length es)]
      else []) @
     [context_note]"
proof -
  let ?r = "recent_contexts es"
  have l: "length ?r = length es" by (rule length_recent_contexts)
  with assms have 1: "take 3 ?r \<noteq> []" by auto
  have 2: "drop 3 (take CONTEXT_FOR_AI ?r) \<noteq> [] \<longleftrightarrow> 3 < length es"
    using l by (auto simp: CONTEXT_FOR_AI_def)
  have 3: "map older_part (drop 3 (take CONTEXT_FOR_AI ?r)) =
           map (\<lambda>i. older_part (?r ! i)) [3..<min CONTEXT_FOR_AI (length es)]"
    by (simp add: drop_take_nth l o_def)
  show ?thesis
    unfolding context_parts_def Let_def
    using 1 2 3 by (simp add: priority_section l)
qed

lemma priority_parts_shape:
  "priority_parts i e =
     [[newline] @ priority_marker i @ py '' ['' @ timestamp e @ py ''] In: '' @ cwd e,
      py ''Command: '' @ command e] @
     (if entry_output e = [] then []
      else [py ''Output: '' @ take (if i = 0 then 800 else 400) (entry_output e) @
            (if (if i = 0 then 800 else 400) < length (entry_output e)
             then py ''... (truncated)'' else [])]) @
     [replicate 50 45]"
  by (simp add: priority_parts_def Let_def)

lemma priority_marker_ranks:
  "priority_marker 0 = py ''>>> LATEST:'' \<and> priority_marker 1 = py ''>>> #2:'' \<and>
   priority_marker 2 = py ''>>> #3:''"
  by (simp add: priority_marker_def str_nat.simps py_def)


lemma older_part_one_line:
  "newline \<notin> set (timestamp e) \<Longrightarrow> newline \<notin> set (command e) \<Longrightarrow>
   newline \<notin> set (take 100 (entry_output e)) \<Longrightarrow> newline \<notin> set (older_part e)"
  by (simp add: older_part_def py_def newline_def)

text \<open>
  Claim C7, as amended. \<^verbatim>\<open>build_context_for_ai\<close> returns the empty string when there is no
  shell entry. Otherwise the entries are ordered by \<open>epoch_time\<close>, largest first, and the
  result joins with line breaks: the header, the three first-ranked entries in full detail,
  where an output longer than 800 characters for the first entry and longer than 400 for
  the next two is cut to that length and followed by \<^verbatim>\<open>... (truncated)\<close>, then for the
  entries ranked 4 to \<open>CONTEXT_FOR_AI\<close> one summary item each, made of the timestamp, the
  command and the first 100 characters of the output followed by \<^verbatim>\<open>...\<close>, and the closing
  note. A summary item is a single line when the timestamp, the command and those 100
  characters hold no line break; line breaks in them are copied as they are.
\<close>

theorem build_context_for_ai_ranked:
  "(let entries = shell_context cm; recent = recent_contexts entries; n = length entries in
      build_context_for_ai cm =
        (if entries = [] then []
         else join [newline]
                ([context_header, priority_header] @
                 concat (map (\<lambda>i. priority_parts i (recent ! i)) [0..<min 3 n]) @
                 (if 3 < n
                  then older_header #
                       map (\<lambda>i. older_part (recent ! i)) [3..<min CONTEXT_FOR_AI n]
                  else []) @
                 [context_note])) \<and>
      mset recent = mset entries \<and>
      sorted_wrt (\<lambda>a b. epoch_time b \<le> epoch_time a) recent) \<and>
   priority_parts i e =
     [[newline] @ priority_marker i @ py '' ['' @ timestamp e @ py ''] In: '' @ cwd e,
      py ''Command: '' @ command e] @
     (if entry_output e = [] then []
      else [py ''Output: '' @ take (if i = 0 then 800 else 400) (entry_output e) @
            (if (if i = 0 then 800 else 400) < length (entry_output e)
             then py ''... (truncated)'' else [])]) @
     [replicate 50 45] \<and>
   older_part e =
     py ''['' @ timestamp e @ py ''] '' @ command e @ py '' -> '' @
     take 100 (entry_output e) @ py ''...'' \<and>
   (newline \<notin> set (timestamp e) \<and> newline \<notin> set (command e) \<and>
    newline \<notin> set (take 100 (entry_output e)) \<longrightarrow> newline \<notin> set (older_part e))"
proof -
  have 1: "build_context_for_ai cm =
        (if shell_context cm = [] then []
         else join [newline]
                ([context_header, priority_header] @
                 concat (map (\<lambda>i. priority_parts i (recent_contexts (shell_context cm) ! i))
                           [0..<min 3 (length (shell_context cm))]) @
                 (if 3 < length (shell_context cm)
                  then older_header #
                       map (\<lambda>i. older_part (recent_contexts (shell_context cm) ! i))
                         [3..<min CONTEXT_FOR_AI (length (shell_context cm))]
                  else []) @
                 [context_note]))"
    by (simp add: build_context_for_ai_def context_parts_ranked)
  have 2: "older_part e =
     py ''['' @ timestamp e @ py ''] '' @ command e @ py '' -> '' @
     take 100 (entry_output e) @ py ''...''"
    by (simp add: older_part_def)
  show ?thesis
    unfolding Let_def
    using 1 2 mset_recent_contexts [of "shell_context cm"]
      sorted_recent_contexts [of "shell_context cm"] priority_parts_shape [of i e]
      older_part_one_line [of e]
    by blast
qed

theorem build_context_for_ai_ranked_witness:
  "(let cm = \<lparr>shell_context =
        [\<lparr>timestamp = py ''t1'', command = py ''a'', entry_output = replicate 101 122,
          cwd = py ''/d'', epoch_time = 1\<rparr>,
         \<lparr>timestamp = py ''t2'', command = py ''b'', entry_output = replicate 401 121,
          cwd = py ''/d'', epoch_time = 3\<rparr>,
         \<lparr>timestamp = py ''t3'', command = py ''c'', entry_output = replicate 801 120,
          cwd = py ''/d'', epoch_time = 4\<rparr>,
         \<lparr>timestamp = py ''t4'', command = py ''d'', entry_output = [],
          cwd = py ''/d'', epoch_time = 2\<rparr>],
        conversation_history = []\<rparr>
    in build_context_for_ai cm =
         join [newline]
           [context_header, priority_header,
            [newline] @ py ''>>> LATEST: [t3] In: /d'', py ''Command: c'',
            py ''Output: '' @ replicate 800 120 @ py ''... (truncated)'', replicate 50 45,
            [newline] @ py ''>>> #2: [t2] In: /d'', py ''Command: b'',
            py ''Output: '' @ replicate 400 121 @ py ''... (truncated)'', replicate 50 45,
            [newline] @ py ''>>> #3: [t4] In: /d'', py ''Command: d'', replicate 50 45,
            older_header, py ''[t1] a -> '' @ replicate 100 122 @ py ''...'',
            context_note] \<and>
       newline \<notin> set (older_part (recent_contexts (shell_context cm) ! 3)))"
  using build_context_for_ai_ranked [of
      "\<lparr>shell_context =
        [\<lparr>timestamp = py ''t1'', command = py ''a'', entry_output = replicate 101 122,
          cwd = py ''/d'', epoch_time = 1\<rparr>,
         \<lparr>timestamp = py ''t2'', command = py ''b'', entry_output = replicate 401 121,
          cwd = py ''/d'', epoch_time = 3\<rparr>,
         \<lparr>timestamp = py ''t3'', command = py ''c'', entry_output = replicate 801 120,
          cwd = py ''/d'', epoch_time = 4\<rparr>,
         \<lparr>timestamp = py ''t4'', command = py ''d'', entry_output = [],
          cwd = py ''/d'', epoch_time = 2\<rparr>],
        conversation_history = []\<rparr>" 0
      "\<lparr>timestamp = py ''t1'', command = py ''a'', entry_output = replicate 101 122,
          cwd = py ''/d'', epoch_time = 1\<rparr>"]
  by (simp add: build_context_for_ai_def context_parts_def recent_contexts_def Let_def
      CONTEXT_FOR_AI_def priority_parts_def older_part_def priority_marker_def
      str_nat.simps context_header_def priority_header_def older_header_def context_note_def
      newline_def py_def)

text \<open>
  Claim C7 as stated fails where it calls the summaries one-line: the entry ranked fourth
  below has the output \<^verbatim>\<open>"a\nb"\<close>, and its summary takes the two lines
  \<^verbatim>\<open>[t1] ls -> a\<close> and \<^verbatim>\<open>b...\<close> of the result.
\<close>

theorem older_summary_spans_lines:
  "(let cm = \<lparr>shell_context =
        [\<lparr>timestamp = py ''t1'', command = py ''ls'', entry_output = py ''a'' @ [newline] @ py ''b'',
          cwd = py ''/d'', epoch_time = 1\<rparr>,
         \<lparr>timestamp = py ''t2'', command = py ''pwd'', entry_output = py ''/d'',
          cwd = py ''/d'', epoch_time = 4\<rparr>,
         \<lparr>timestamp = py ''t3'', command = py ''cd'', entry_output = [],
          cwd = py ''/d'', epoch_time = 2\<rparr>,
         \<lparr>timestamp = py ''t4'', command = py ''id'', entry_output = py ''u'',
          cwd = py ''/d'', epoch_time = 3\<rparr>],
        conversation_history = []\<rparr>
    in map command (recent_contexts (shell_context cm)) = [py ''pwd'', py ''id'', py ''cd'', py ''ls''] \<and>
       drop 18 (split_on newline (build_context_for_ai cm)) =
         [[128203] @ py '' ADDITIONAL CONTEXT (older commands):'',
          py ''[t1] ls -> a'', py ''b...'', [],
          [128161] @ py '' NOTE: When user asks about errors or issues, prioritize the LATEST/MOST RECENT commands above.''])"
  by (simp add: build_context_for_ai_def context_parts_def recent_contexts_def Let_def
      CONTEXT_FOR_AI_def priority_parts_def older_part_def priority_marker_def
      str_nat.simps context_header_def priority_header_def older_header_def context_note_def
      newline_def py_def split_on_append_sep)

section \<open>Properties of the chunk source\<close>

lemma py_get_Inr:
  "py_get rt key dflt v = Inr x \<Longrightarrow>
   \<exists>kvs. v = JObj kvs \<and> x = (case map_of kvs key of Some y \<Rightarrow> y | None \<Rightarrow> dflt)"
  by (cases v) auto

lemma py_getitem_Inr:
  "py_getitem rt key v = Inr x \<Longrightarrow> \<exists>kvs. v = JObj kvs \<and> map_of kvs key = Some x"
  by (cases v) (auto split: option.splits)

lemma py_getitem0_Inr_obj:
  "py_getitem0 rt v = Inr (JObj kvs) \<Longrightarrow> \<exists>rest. v = JArr (JObj kvs # rest)"
  by (cases v) (auto split: list.splits)

lemma frame_content_Content:
  assumes "frame_content rt chunk_data = Content c"
  shows "truthy c \<and> delta_content chunk_data = Some c"
proof -
  from assms obtain choices where 1: "py_getitem rt (py ''choices'') chunk_data = Inr choices"
    by (auto simp: frame_content_def split: sum.splits bool.splits if_splits)
  with assms obtain choice where 2: "py_getitem0 rt choices = Inr choice"
    by (auto simp: frame_content_def split: sum.splits bool.splits if_splits)
  with assms 1 obtain delta where 3: "py_get rt (py ''delta'') (JObj []) choice = Inr delta"
    by (auto simp: frame_content_def split: sum.splits bool.splits if_splits)
  with assms 1 2 have 4: "py_get rt (py ''content'') (JStr []) delta = Inr c" and t: "truthy c"
    by (auto simp: frame_content_def split: sum.splits bool.splits if_splits)
  from 1 obtain obj where top: "chunk_data = JObj obj" "map_of obj (py ''choices'') = Some choices"
    using py_getitem_Inr by blast
  from 3 obtain ckvs where ch: "choice = JObj ckvs"
    "delta = (case map_of ckvs (py ''delta'') of Some y \<Rightarrow> y | None \<Rightarrow> JObj [])"
    using py_get_Inr by blast
  from 2 ch obtain rest where cs: "choices = JArr (JObj ckvs # rest)"
    using py_getitem0_Inr_obj by blast
  from 4 obtain dkvs where d: "delta = JObj dkvs"
    "c = (case map_of dkvs (py ''content'') of Some y \<Rightarrow> y | None \<Rightarrow> JStr [])"
    using py_get_Inr by blast
  from t d(2) have dc: "map_of dkvs (py ''content'') = Some c"
    by (cases "map_of dkvs (py ''content'')") auto
  show ?thesis
  proof (cases "map_of ckvs (py ''delta'')")
    case None
    with ch(2) d(1) have "dkvs = []" by simp
    with dc show ?thesis by simp
  next
    case (Some y)
    with ch(2) d(1) have "y = JObj dkvs" by simp
    with Some top cs dc t show ?thesis
      by (simp add: delta_content_def)
  qed
qed

lemma handle_line_Content:
  assumes "handle_line rt line = Content c"
  shows "truthy c \<and>
     (\<exists>s chunk_data. decode_utf8 rt line = Inr s \<and> startswith s (py ''data: '') \<and>
        json_loads rt (drop 6 s) = Some chunk_data \<and> delta_content chunk_data = Some c)"
proof -
  from assms obtain s where s: "decode_utf8 rt line = Inr s"
    by (auto simp: handle_line_def Let_def split: if_splits sum.splits)
  with assms have st: "startswith s (py ''data: '')"
    by (auto simp: handle_line_def Let_def split: if_splits sum.splits)
  with assms s obtain chunk_data where j: "json_loads rt (drop 6 s) = Some chunk_data"
    and f: "frame_content rt chunk_data = Content c"
    by (auto simp: handle_line_def Let_def split: if_splits sum.splits option.splits)
  from f have "truthy c \<and> delta_content chunk_data = Some c"
    by (rule frame_content_Content)
  with s st j show ?thesis by blast
qed

lemma iter_lines_Skip:
  "handle_line rt line = Skip \<Longrightarrow>
   iter_lines rt (pre @ line # post) ending = iter_lines rt (pre @ post) ending"
  by (induction pre) (simp_all split: line_step.splits)

lemma iter_lines_Break:
  "handle_line rt line = Break \<Longrightarrow>
   iter_lines rt (pre @ line # post) ending = iter_lines rt pre None"
  by (induction pre) (simp_all split: line_step.splits)

lemma iter_lines_passes:
  "\<forall>l\<in>set lines. passes rt l \<Longrightarrow>
   iter_lines rt lines ending =
     contents_of rt lines @ (case ending of None \<Rightarrow> [] | Some e \<Rightarrow> [error_chunk e])"
proof (induction lines)
  case Nil
  then show ?case by (cases ending) (simp_all add: contents_of_def)
next
  case (Cons l ls)
  then show ?case
    by (cases "handle_line rt l") (simp_all add: contents_of_def passes_def)
qed

lemma iter_lines_yields:
  "c \<in> set (iter_lines rt lines ending) \<Longrightarrow>
   (\<exists>l\<in>set lines. handle_line rt l = Content c) \<or> (\<exists>e. c = error_chunk e)"
proof (induction lines)
  case Nil
  then show ?case by (cases ending) auto
next
  case (Cons l ls)
  then show ?case
    by (cases "handle_line rt l") auto
qed

text \<open>
  Claim C9. The generator handles a delivered line only when it is not empty and its text
  begins with \<^verbatim>\<open>data: \<close>; any other line is passed over. A line whose text after
  \<^verbatim>\<open>data: \<close> is, up to surrounding whitespace, \<^verbatim>\<open>[DONE]\<close> ends the iteration, and the
  values yielded are then those of the stream ending naturally before that line. A frame
  whose JSON does not parse is passed over and changes nothing of what the other lines
  yield. A value yielded for a line is the value at \<^verbatim>\<open>choices[0].delta.content\<close> of its
  frame and is truthy (a string is not empty); every yielded value is such a content or
  an error text. When the request fails outright the generator yields the single text
  \<^verbatim>\<open>Error: \<close> followed by the description and ends; when the delivery breaks after lines
  that were all handled, it yields their contents and then that one text: an exception is
  turned into a value, never raised to the consumer.
\<close>

theorem chunk_source_frames:
  "(line = [] \<or> (\<exists>s. decode_utf8 rt line = Inr s \<and> \<not> startswith s (py ''data: ''))
      \<longrightarrow> handle_line rt line = Skip) \<and>
   (line \<noteq> [] \<and> decode_utf8 rt line = Inr s \<and> startswith s (py ''data: '') \<and>
    py_strip (drop 6 s) = py ''[DONE]'' \<longrightarrow> handle_line rt line = Break) \<and>
   (line \<noteq> [] \<and> decode_utf8 rt line = Inr s \<and> startswith s (py ''data: '') \<and>
    py_strip (drop 6 s) \<noteq> py ''[DONE]'' \<and> json_loads rt (drop 6 s) = None
      \<longrightarrow> handle_line rt line = Skip) \<and>
   (handle_line rt line = Content c \<longrightarrow>
      truthy c \<and>
      (\<exists>s chunk_data. decode_utf8 rt line = Inr s \<and> startswith s (py ''data: '') \<and>
         json_loads rt (drop 6 s) = Some chunk_data \<and> delta_content chunk_data = Some c)) \<and>
   (handle_line rt line = Skip \<longrightarrow>
      iter_lines rt (pre @ line # post) ending = iter_lines rt (pre @ post) ending) \<and>
   (handle_line rt line = Break \<longrightarrow>
      iter_lines rt (pre @ line # post) ending = iter_lines rt pre None) \<and>
   (v \<in> set (create_api_streaming_generator rt http msgs) \<longrightarrow>
      (\<exists>lines ending. http msgs = Streamed lines ending \<and>
         (\<exists>l\<in>set lines. handle_line rt l = Content v)) \<or>
      (\<exists>e. v = error_chunk e)) \<and>
   (http msgs = PostFailed e \<longrightarrow> create_api_streaming_generator rt http msgs = [error_chunk e]) \<and>
   (http msgs = Streamed lines ending \<and> (\<forall>l\<in>set lines. passes rt l) \<longrightarrow>
      create_api_streaming_generator rt http msgs =
        contents_of rt lines @ (case ending of None \<Rightarrow> [] | Some e \<Rightarrow> [error_chunk e]))"
proof -
  have 1: "line = [] \<or> (\<exists>s. decode_utf8 rt line = Inr s \<and> \<not> startswith s (py ''data: ''))
      \<longrightarrow> handle_line rt line = Skip"
    by (auto simp: handle_line_def)
  have 2: "line \<noteq> [] \<and> decode_utf8 rt line = Inr s \<and> startswith s (py ''data: '') \<and>
    py_strip (drop 6 s) = py ''[DONE]'' \<longrightarrow> handle_line rt line = Break"
    by (simp add: handle_line_def)
  have 3: "line \<noteq> [] \<and> decode_utf8 rt line = Inr s \<and> startswith s (py ''data: '') \<and>
    py_strip (drop 6 s) \<noteq> py ''[DONE]'' \<and> json_loads rt (drop 6 s) = None
      \<longrightarrow> handle_line rt line = Skip"
    by (simp add: handle_line_def)
  have 4: "handle_line rt line = Content c \<longrightarrow>
      truthy c \<and>
      (\<exists>s chunk_data. decode_utf8 rt line = Inr s \<and> startswith s (py ''data: '') \<and>
         json_loads rt (drop 6 s) = Some chunk_data \<and> delta_content chunk_data = Some c)"
    using handle_line_Content by blast
  have 5: "handle_line rt line = Skip \<longrightarrow>
      iter_lines rt (pre @ line # post) ending = iter_lines rt (pre @ post) ending"
    using iter_lines_Skip by blast
  have 6: "handle_line rt line = Break \<longrightarrow>
      iter_lines rt (pre @ line # post) ending = iter_lines rt pre None"
    using iter_lines_Break by blast
  have 7: "v \<in> set (create_api_streaming_generator rt http msgs) \<longrightarrow>
      (\<exists>lines ending. http msgs = Streamed lines ending \<and>
         (\<exists>l\<in>set lines. handle_line rt l = Content v)) \<or>
      (\<exists>e. v = error_chunk e)"
  proof (cases "http msgs")
    case (PostFailed x)
    then show ?thesis by (auto simp: create_api_streaming_generator_def)
  next
    case (Streamed ls en)
    then show ?thesis
      using iter_lines_yields [of v rt ls en]
      by (auto simp: create_api_streaming_generator_def)
  qed
  have 8: "http msgs = PostFailed e \<longrightarrow> create_api_streaming_generator rt http msgs = [error_chunk e]"
    by (simp add: create_api_streaming_generator_def)
  have 9: "http msgs = Streamed lines ending \<and> (\<forall>l\<in>set lines. passes rt l) \<longrightarrow>
      create_api_streaming_generator rt http msgs =
        contents_of rt lines @ (case ending of None \<Rightarrow> [] | Some e \<Rightarrow> [error_chunk e])"
    by (simp add: create_api_streaming_generator_def iter_lines_passes)
  from 1 2 3 4 5 6 7 8 9 show ?thesis by blast
qed

theorem chunk_source_frames_witness:
  "handle_line example_runtime [] = Skip \<and>
   handle_line example_runtime '': keep-alive'' = Skip \<and>
   handle_line example_runtime ''data: {broken'' = Skip \<and>
   handle_line example_runtime ''data: {\"choices\":[{\"delta\":{\"content\":\"\"}}]}'' = Skip \<and>
   handle_line example_runtime ''data:  [DONE] '' = Break \<and>
   create_api_streaming_generator example_runtime
     (\<lambda>msgs. Streamed
        [[], '': keep-alive'', ''data: {broken'',
         ''data: {\"choices\":[{\"delta\":{\"content\":\"The answer\"}}]}'',
         ''data: [DONE]'',
         ''data: {\"choices\":[{\"delta\":{\"content\":\" is 4\"}}]}''] None) [] =
     [JStr (py ''The answer'')] \<and>
   create_api_streaming_generator example_runtime
     (\<lambda>msgs. Streamed
        [''data: {\"choices\":[{\"delta\":{\"content\":\"The answer\"}}]}'']
        (Some (Exc RequestException (py ''Connection reset'')))) [] =
     [JStr (py ''The answer''), JStr (py ''Error: Connection reset'')] \<and>
   create_api_streaming_generator example_runtime
     (\<lambda>msgs. PostFailed (Exc RequestException (py ''timed out''))) [] =
     [JStr (py ''Error: timed out'')]"
  using chunk_source_frames [where line = "''data: [DONE]''" and rt = example_runtime
      and s = "py ''data: [DONE]''"
      and pre = "[[], '': keep-alive'', ''data: {broken'',
        ''data: {\"choices\":[{\"delta\":{\"content\":\"The answer\"}}]}'']"
      and post = "[''data: {\"choices\":[{\"delta\":{\"content\":\" is 4\"}}]}'']"
      and ending = None
      and http = "\<lambda>msgs. PostFailed (Exc RequestException (py ''timed out''))"
      and msgs = "[]" and e = "Exc RequestException (py ''timed out'')"]
  by (simp add: example_runtime_def content_frame_def create_api_streaming_generator_def
      handle_line_def frame_content_def error_chunk_def startswith_def py_strip_def
      isspace_def py_def Let_def)

section \<open>Properties of the stream session\<close>

lemma consume_text_chunks:
  "consume rt (text_chunks fs @ rest) r = consume rt rest (feed fs r)"
  by (induction fs arbitrary: r) (simp_all add: text_chunks_def feed_def)

lemma consume_text_end: "consume rt (text_chunks fs) r = (Exhausted, feed fs r)"
  using consume_text_chunks [of rt fs "[]" r] by simp


lemma consume_text_raised:
  "consume rt (text_chunks fs @ Raised e # rest) r = (Faulted e, feed fs r)"
  by (simp add: consume_text_chunks)

lemma consume_not_text:
  "\<forall>s. v \<noteq> JStr s \<Longrightarrow>
   consume rt (text_chunks fs @ Chunk v # rest) r = (Faulted (raise rt TypeError v), feed fs r)"
  by (cases v) (simp_all add: consume_text_chunks)





lemma pulls_text:
  "pulls None (map JStr fs) = text_chunks fs"
  by (simp add: pulls_def text_chunks_def)



lemma live_markdown_end:
  assumes "api_call_func (ui\<lparr>markdown_renderer := reset (markdown_renderer ui)\<rparr>) = text_chunks fs"
  shows "stream_ai_response_with_live_markdown rt api_call_func ui =
           (concat fs, ui\<lparr>markdown_renderer := feed fs (reset (markdown_renderer ui))\<rparr>)"
  using assms
  by (simp add: stream_ai_response_with_live_markdown_def Let_def consume_text_end
      full_content_feed reset_def)

lemma live_markdown_raised:
  assumes "api_call_func (ui\<lparr>markdown_renderer := reset (markdown_renderer ui)\<rparr>) =
             text_chunks fs @ Raised e # rest"
  shows "stream_ai_response_with_live_markdown rt api_call_func ui =
           (cross_mark @ py '' Error: '' @ exc_str e,
            ui\<lparr>markdown_renderer := feed fs (reset (markdown_renderer ui))\<rparr>)"
  using assms
  by (simp add: stream_ai_response_with_live_markdown_def Let_def consume_text_raised)

lemma live_markdown_not_text:
  assumes "api_call_func (ui\<lparr>markdown_renderer := reset (markdown_renderer ui)\<rparr>) =
             text_chunks fs @ Chunk v # rest" and "\<forall>s. v \<noteq> JStr s"
  shows "stream_ai_response_with_live_markdown rt api_call_func ui =
           (cross_mark @ py '' Error: '' @ error_message rt TypeError v,
            ui\<lparr>markdown_renderer := feed fs (reset (markdown_renderer ui))\<rparr>)"
  using assms
  by (simp add: stream_ai_response_with_live_markdown_def Let_def consume_not_text raise_def)






lemma startswith_append: "startswith (p @ s) p"
  by (simp add: startswith_def)

lemma cancelled_not_error: "response_cancelled \<noteq> cross_mark @ s"
  by (simp add: response_cancelled_def warning_sign_def cross_mark_def)

lemma error_not_completed: "\<not> completed_turn (cross_mark @ s)"
  by (simp add: completed_turn_def startswith_append)

lemma colon_notin_cancelled: "58 \<notin> set response_cancelled"
  by (simp add: response_cancelled_def warning_sign_def py_def)

lemma error_text_not_cancelled: "p @ py ''Error: '' @ d \<noteq> response_cancelled"
proof
  assume "p @ py ''Error: '' @ d = response_cancelled"
  then have "set (p @ py ''Error: '' @ d) = set response_cancelled" by simp
  moreover have "58 \<in> set (p @ py ''Error: '' @ d)" by (simp add: py_def)
  ultimately show False using colon_notin_cancelled by simp
qed

lemma error_text_completed: "completed_turn (py ''Error: '' @ d)"
  by (simp add: completed_turn_def startswith_def py_def cross_mark_def warning_sign_def)

lemma full_content_feed_reset: "full_content (feed fs (reset r)) = concat fs"
  by (simp add: full_content_feed reset_def)


lemma shell_complete:
  assumes "create_api_streaming_generator rt http
             (request_messages user_message (context_manager sh)) = map JStr fs"
    and "concat fs \<noteq> response_cancelled"
  shows "stream_ai_response rt env http None user_message sh =
     (concat fs,
      sh\<lparr>streaming_ui :=
           (streaming_ui sh)
             \<lparr>markdown_renderer := feed fs (reset (markdown_renderer (streaming_ui sh)))\<rparr>,
         context_manager :=
           (if completed_turn (concat fs)
            then add_conversation user_message (concat fs) (context_manager sh)
            else context_manager sh)\<rparr>)"
proof -
  let ?api = "\<lambda>ui::StreamingUIManager. pulls None
      (create_api_streaming_generator rt http (request_messages user_message (context_manager sh)))"
  have "?api ((streaming_ui sh)\<lparr>markdown_renderer := reset (markdown_renderer (streaming_ui sh))\<rparr>) =
        text_chunks fs"
    using assms(1) by (simp add: pulls_text)
  then have "stream_ai_response_with_live_markdown rt ?api (streaming_ui sh) =
      (concat fs,
       (streaming_ui sh)\<lparr>markdown_renderer := feed fs (reset (markdown_renderer (streaming_ui sh)))\<rparr>)"
    by (rule live_markdown_end)
  with assms(2) show ?thesis
    by (simp add: stream_ai_response_def Let_def)
qed

lemma shell_not_text:
  assumes "create_api_streaming_generator rt http
             (request_messages user_message (context_manager sh)) = map JStr fs @ v # rest"
    and "\<forall>s. v \<noteq> JStr s"
  shows "stream_ai_response rt env http None user_message sh =
     (cross_mark @ py '' Error: '' @ error_message rt TypeError v,
      sh\<lparr>streaming_ui :=
           (streaming_ui sh)
             \<lparr>markdown_renderer := feed fs (reset (markdown_renderer (streaming_ui sh)))\<rparr>\<rparr>)"
proof -
  let ?api = "\<lambda>ui::StreamingUIManager. pulls None
      (create_api_streaming_generator rt http (request_messages user_message (context_manager sh)))"
  have "?api ((streaming_ui sh)\<lparr>markdown_renderer := reset (markdown_renderer (streaming_ui sh))\<rparr>) =
        text_chunks fs @ Chunk v # map Chunk rest"
    using assms(1) by (simp add: pulls_def text_chunks_def)
  then have "stream_ai_response_with_live_markdown rt ?api (streaming_ui sh) =
      (cross_mark @ py '' Error: '' @ error_message rt TypeError v,
       (streaming_ui sh)\<lparr>markdown_renderer := feed fs (reset (markdown_renderer (streaming_ui sh)))\<rparr>)"
    using assms(2) by (rule live_markdown_not_text)
  then show ?thesis
    using cancelled_not_error [of "py '' Error: '' @ error_message rt TypeError v"]
      error_not_completed [of "py '' Error: '' @ error_message rt TypeError v"]
    by (simp add: stream_ai_response_def Let_def)
qed

section \<open>Cancellation and resumption\<close>









section \<open>Failures of the connection\<close>

lemma shell_error_fragment:
  assumes "create_api_streaming_generator rt http
             (request_messages user_message (context_manager sh)) = map JStr fs @ [error_chunk e]"
  shows "stream_ai_response rt env http None user_message sh =
     (concat fs @ py ''Error: '' @ exc_str e,
      sh\<lparr>streaming_ui :=
           (streaming_ui sh)
             \<lparr>markdown_renderer :=
                feed (fs @ [py ''Error: '' @ exc_str e])
                  (reset (markdown_renderer (streaming_ui sh)))\<rparr>,
         context_manager :=
           (if completed_turn (concat fs @ py ''Error: '' @ exc_str e)
            then add_conversation user_message (concat fs @ py ''Error: '' @ exc_str e)
                   (context_manager sh)
            else context_manager sh)\<rparr>)"
proof -
  have g: "create_api_streaming_generator rt http
             (request_messages user_message (context_manager sh)) =
           map JStr (fs @ [py ''Error: '' @ exc_str e])"
    using assms by (simp add: error_chunk_def)
  have n: "concat (fs @ [py ''Error: '' @ exc_str e]) \<noteq> response_cancelled"
    using error_text_not_cancelled [of "concat fs" "exc_str e"] by simp
  show ?thesis
    using shell_complete [OF g n, of env] by simp
qed

lemma generator_broken_stream:
  assumes "http msgs = Streamed lines (Some e)" and "\<forall>l\<in>set lines. passes rt l"
    and "contents_of rt lines = map JStr fs"
  shows "create_api_streaming_generator rt http msgs = map JStr fs @ [error_chunk e]"
  using assms by (simp add: create_api_streaming_generator_def iter_lines_passes)

lemma generator_post_failed:
  assumes "http msgs = PostFailed e"
  shows "create_api_streaming_generator rt http msgs = map JStr [] @ [error_chunk e]"
  using assms by (simp add: create_api_streaming_generator_def)

lemma generator_undecodable_line:
  assumes "http msgs = Streamed (pre @ line # post) ending" and "\<forall>l\<in>set pre. passes rt l"
    and "contents_of rt pre = map JStr fs" and "line \<noteq> []" and "decode_utf8 rt line = Inl e"
  shows "create_api_streaming_generator rt http msgs = map JStr fs @ [error_chunk e]"
proof -
  have h: "handle_line rt line = Failure e"
    using assms(4,5) by (simp add: handle_line_def)
  have "\<forall>l\<in>set pre. passes rt l \<Longrightarrow>
        iter_lines rt (pre @ line # post) ending = contents_of rt pre @ [error_chunk e]"
  proof (induction pre)
    case Nil
    then show ?case using h by (simp add: contents_of_def)
  next
    case (Cons l ls)
    then show ?case
      by (cases "handle_line rt l") (simp_all add: contents_of_def passes_def)
  qed
  with assms show ?thesis
    by (simp add: create_api_streaming_generator_def)
qed

text \<open>
  Claim C10, as amended. When the request fails at opening, the generator yields the one
  text \<^verbatim>\<open>Error: \<close> followed by the description and ends; the exchange returns that text,
  which is also \<open>full_content\<close>, and the prompt and the text are appended to the
  conversation history as a completed turn. When the delivery breaks after lines that
  yielded the text fragments \<open>fragments\<close>, the generator yields them and then the error
  text and ends; the exchange returns the fragments followed by the error text, and the
  prompt and this response are appended to the history provided the response does not
  begin with the cross mark or the warning sign; when it does, because the content received
  before the failure begins with one of them, the history is left as it was.
\<close>

theorem connection_failure_completes_turn:
  "(let msgs = request_messages user_message (context_manager sh);
        (response, after) = stream_ai_response rt env http None user_message sh
    in (http msgs = PostFailed e \<longrightarrow>
          create_api_streaming_generator rt http msgs = [JStr (py ''Error: '' @ exc_str e)] \<and>
          response = py ''Error: '' @ exc_str e \<and>
          full_content (markdown_renderer (streaming_ui after)) = response \<and>
          context_manager after = add_conversation user_message response (context_manager sh)) \<and>
       (http msgs = Streamed lines (Some e) \<and> (\<forall>l\<in>set lines. passes rt l) \<and>
        contents_of rt lines = map JStr fragments \<longrightarrow>
          create_api_streaming_generator rt http msgs =
            map JStr fragments @ [JStr (py ''Error: '' @ exc_str e)] \<and>
          response = concat fragments @ py ''Error: '' @ exc_str e \<and>
          full_content (markdown_renderer (streaming_ui after)) = response \<and>
          (completed_turn response \<longrightarrow>
             context_manager after =
               add_conversation user_message response (context_manager sh)) \<and>
          (\<not> completed_turn response \<longrightarrow> context_manager after = context_manager sh)))"
proof -
  let ?msgs = "request_messages user_message (context_manager sh)"
  have 1: "http ?msgs = PostFailed e \<longrightarrow>
      create_api_streaming_generator rt http ?msgs = [JStr (py ''Error: '' @ exc_str e)] \<and>
      stream_ai_response rt env http None user_message sh =
        (py ''Error: '' @ exc_str e,
         sh\<lparr>streaming_ui :=
              (streaming_ui sh)
                \<lparr>markdown_renderer :=
                   feed [py ''Error: '' @ exc_str e] (reset (markdown_renderer (streaming_ui sh)))\<rparr>,
            context_manager :=
              add_conversation user_message (py ''Error: '' @ exc_str e) (context_manager sh)\<rparr>)"
  proof
    assume a: "http ?msgs = PostFailed e"
    then have g: "create_api_streaming_generator rt http ?msgs = map JStr [] @ [error_chunk e]"
      by (rule generator_post_failed)
    from shell_error_fragment [OF g, of env] g
    show "create_api_streaming_generator rt http ?msgs = [JStr (py ''Error: '' @ exc_str e)] \<and>
      stream_ai_response rt env http None user_message sh =
        (py ''Error: '' @ exc_str e,
         sh\<lparr>streaming_ui :=
              (streaming_ui sh)
                \<lparr>markdown_renderer :=
                   feed [py ''Error: '' @ exc_str e] (reset (markdown_renderer (streaming_ui sh)))\<rparr>,
            context_manager :=
              add_conversation user_message (py ''Error: '' @ exc_str e) (context_manager sh)\<rparr>)"
      by (simp add: error_text_completed error_chunk_def)
  qed
  have 2: "http ?msgs = Streamed lines (Some e) \<and> (\<forall>l\<in>set lines. passes rt l) \<and>
        contents_of rt lines = map JStr fragments \<longrightarrow>
      create_api_streaming_generator rt http ?msgs =
        map JStr fragments @ [JStr (py ''Error: '' @ exc_str e)] \<and>
      stream_ai_response rt env http None user_message sh =
        (concat fragments @ py ''Error: '' @ exc_str e,
         sh\<lparr>streaming_ui :=
              (streaming_ui sh)
                \<lparr>markdown_renderer :=
                   feed (fragments @ [py ''Error: '' @ exc_str e])
                     (reset (markdown_renderer (streaming_ui sh)))\<rparr>,
            context_manager :=
              (if completed_turn (concat fragments @ py ''Error: '' @ exc_str e)
               then add_conversation user_message (concat fragments @ py ''Error: '' @ exc_str e)
                      (context_manager sh)
               else context_manager sh)\<rparr>)"
  proof
    assume a: "http ?msgs = Streamed lines (Some e) \<and> (\<forall>l\<in>set lines. passes rt l) \<and>
        contents_of rt lines = map JStr fragments"
    then have g: "create_api_streaming_generator rt http ?msgs =
        map JStr fragments @ [error_chunk e]"
      using generator_broken_stream [of http ?msgs lines e rt fragments] by blast
    from shell_error_fragment [OF g, of env] g
    show "create_api_streaming_generator rt http ?msgs =
        map JStr fragments @ [JStr (py ''Error: '' @ exc_str e)] \<and>
      stream_ai_response rt env http None user_message sh =
        (concat fragments @ py ''Error: '' @ exc_str e,
         sh\<lparr>streaming_ui :=
              (streaming_ui sh)
                \<lparr>markdown_renderer :=
                   feed (fragments @ [py ''Error: '' @ exc_str e])
                     (reset (markdown_renderer (streaming_ui sh)))\<rparr>,
            context_manager :=
              (if completed_turn (concat fragments @ py ''Error: '' @ exc_str e)
               then add_conversation user_message (concat fragments @ py ''Error: '' @ exc_str e)
                      (context_manager sh)
               else context_manager sh)\<rparr>)"
      by (simp add: error_chunk_def)
  qed
  show ?thesis
    unfolding Let_def
    using 1 2 by (auto simp: full_content_feed_reset split: prod.splits)
qed

theorem connection_failure_completes_turn_witness:
  "(let broken = (\<lambda>msgs. Streamed
                    [''data: {\"choices\":[{\"delta\":{\"content\":\"The answer\"}}]}'']
                    (Some (Exc RequestException (py ''Connection reset''))));
        (response, after) =
          stream_ai_response example_runtime example_environment broken None
            (py ''What is 2+2?'') new_HybridShell
    in response = py ''The answerError: Connection reset'' \<and>
       conversation_history (context_manager after) =
         [\<lparr>role = py ''user'', content = py ''What is 2+2?''\<rparr>,
          \<lparr>role = py ''assistant'', content = py ''The answerError: Connection reset''\<rparr>]) \<and>
   (let refused = (\<lambda>msgs. PostFailed (Exc RequestException (py ''Connection refused'')));
        (response, after) =
          stream_ai_response example_runtime example_environment refused None
            (py ''What is 2+2?'') new_HybridShell
    in response = py ''Error: Connection refused'' \<and>
       conversation_history (context_manager after) =
         [\<lparr>role = py ''user'', content = py ''What is 2+2?''\<rparr>,
          \<lparr>role = py ''assistant'', content = py ''Error: Connection refused''\<rparr>])"
proof -
  let ?line = "''data: {\"choices\":[{\"delta\":{\"content\":\"The answer\"}}]}''"
  let ?broken = "\<lambda>msgs::message list. Streamed [?line]
      (Some (Exc RequestException (py ''Connection reset'')))"
  let ?refused = "\<lambda>msgs::message list. PostFailed (Exc RequestException (py ''Connection refused''))"
  have h: "handle_line example_runtime ?line = Content (JStr (py ''The answer''))"
    by (simp add: example_runtime_def content_frame_def handle_line_def frame_content_def
        startswith_def py_strip_def isspace_def py_def Let_def)
  have p: "\<forall>l\<in>set [?line]. passes example_runtime l"
    using h by (simp add: passes_def)
  have c: "contents_of example_runtime [?line] = map JStr [py ''The answer'']"
    using h by (simp add: contents_of_def)
  have t: "completed_turn (py ''The answerError: Connection reset'')"
    by (simp add: completed_turn_def startswith_def py_def cross_mark_def warning_sign_def)
  have a: "conversation_history (add_conversation u r (context_manager new_HybridShell)) =
      [\<lparr>role = py ''user'', content = u\<rparr>, \<lparr>role = py ''assistant'', content = r\<rparr>]" for u r
    by (simp add: add_conversation_def new_HybridShell_def new_ContextManager_def Let_def
        MAX_CONVERSATION_HISTORY_def)
  have e: "py ''The answer'' @ py ''Error: '' @ py ''Connection reset'' =
      py ''The answerError: Connection reset''"
    "py ''Error: '' @ py ''Connection refused'' = py ''Error: Connection refused''"
    by (simp_all add: py_def)
  have 1: "(let (response, after) =
          stream_ai_response example_runtime example_environment ?broken None
            (py ''What is 2+2?'') new_HybridShell
    in response = py ''The answerError: Connection reset'' \<and>
       conversation_history (context_manager after) =
         [\<lparr>role = py ''user'', content = py ''What is 2+2?''\<rparr>,
          \<lparr>role = py ''assistant'', content = py ''The answerError: Connection reset''\<rparr>])"
    using connection_failure_completes_turn [where http = ?broken and rt = example_runtime
        and env = example_environment and user_message = "py ''What is 2+2?''"
        and sh = new_HybridShell and lines = "[?line]" and fragments = "[py ''The answer'']"
        and e = "Exc RequestException (py ''Connection reset'')"] p c t
    unfolding Let_def
    by (auto simp: e a split: prod.splits)
  have 2: "(let (response, after) =
          stream_ai_response example_runtime example_environment ?refused None
            (py ''What is 2+2?'') new_HybridShell
    in response = py ''Error: Connection refused'' \<and>
       conversation_history (context_manager after) =
         [\<lparr>role = py ''user'', content = py ''What is 2+2?''\<rparr>,
          \<lparr>role = py ''assistant'', content = py ''Error: Connection refused''\<rparr>])"
    using connection_failure_completes_turn [where http = ?refused and rt = example_runtime
        and env = example_environment and user_message = "py ''What is 2+2?''"
        and sh = new_HybridShell
        and e = "Exc RequestException (py ''Connection refused'')"]
    unfolding Let_def
    by (auto simp: e a split: prod.splits)
  from 1 2 show ?thesis by (simp add: Let_def)
qed

text \<open>
  Claim C10 as stated fails for a failure during the stream when the content received
  before it begins with a sentinel prefix: below the first fragment is the cross mark
  followed by \<^verbatim>\<open>" no"\<close>, the delivery then breaks, and nothing is appended to the
  history.
\<close>

theorem sentinel_prefixed_content_not_recorded:
  "(let broken = (\<lambda>msgs. Streamed
                    [''data: {\"choices\":[{\"delta\":{\"content\":\"'' @ [CHR 0x5C] @
                     ''u274c no\"}}]}'']
                    (Some (Exc RequestException (py ''Connection reset''))));
        (response, after) =
          stream_ai_response example_runtime example_environment broken None
            (py ''Is it 5?'') new_HybridShell
    in create_api_streaming_generator example_runtime broken
         (request_messages (py ''Is it 5?'') (context_manager new_HybridShell)) =
         [JStr (cross_mark @ py '' no''), JStr (py ''Error: Connection reset'')] \<and>
       response = cross_mark @ py '' noError: Connection reset'' \<and>
       conversation_history (context_manager after) = [])"
proof -
  let ?broken = "\<lambda>msgs::message list. Streamed
      [''data: {\"choices\":[{\"delta\":{\"content\":\"'' @ [CHR 0x5C] @ ''u274c no\"}}]}'']
      (Some (Exc RequestException (py ''Connection reset'')))"
  have g: "create_api_streaming_generator example_runtime ?broken msgs =
      map JStr [cross_mark @ py '' no''] @ [error_chunk (Exc RequestException (py ''Connection reset''))]"
    for msgs
    by (simp add: example_runtime_def content_frame_def create_api_streaming_generator_def
        handle_line_def frame_content_def error_chunk_def startswith_def py_strip_def
        isspace_def py_def Let_def cross_mark_def)
  have n: "\<not> completed_turn (concat [cross_mark @ py '' no''] @ py ''Error: '' @
      exc_str (Exc RequestException (py ''Connection reset'')))"
    by (simp add: completed_turn_def startswith_def cross_mark_def)
  show ?thesis
    unfolding Let_def shell_error_fragment [OF g] g
    using n
    by (simp add: error_chunk_def new_HybridShell_def new_ContextManager_def py_def)
qed

text \<open>
  Claim C8, as amended. When the pull loop of the session meets an exception, raised by
  the iterator or by \<^verbatim>\<open>add_chunk\<close> on a yielded value that is not text, the session returns
  the sentinel made of the cross mark, \<^verbatim>\<open> Error: \<close> and the description; the snapshot slot
  is left as it was and nothing is appended to the history. A failure of the network, at
  opening or during the delivery, or of the decoding of a line's bytes does not reach the
  session as an exception: the generator yields \<^verbatim>\<open>Error: \<close> with the description as its last
  fragment, the exchange runs to its end and returns the accumulated text, and the snapshot
  slot is left as it was. The exchange returns a result in every case.
\<close>

theorem ingestion_fault_result:
  "(api_call_func (ui\<lparr>markdown_renderer := reset (markdown_renderer ui)\<rparr>) =
      text_chunks fragments @ Raised e # rest \<longrightarrow>
      fst (stream_ai_response_with_live_markdown rt api_call_func ui) =
        cross_mark @ py '' Error: '' @ exc_str e \<and>
      cancelled_stream_state (snd (stream_ai_response_with_live_markdown rt api_call_func ui)) =
        cancelled_stream_state ui) \<and>
   (create_api_streaming_generator rt http (request_messages user_message (context_manager sh)) =
      map JStr fragments @ v # later \<and> (\<forall>s. v \<noteq> JStr s) \<longrightarrow>
      fst (stream_ai_response rt env http None user_message sh) =
        cross_mark @ py '' Error: '' @ error_message rt TypeError v \<and>
      cancelled_stream_state (streaming_ui (snd (stream_ai_response rt env http None user_message sh))) =
        cancelled_stream_state (streaming_ui sh) \<and>
      context_manager (snd (stream_ai_response rt env http None user_message sh)) =
        context_manager sh) \<and>
   (create_api_streaming_generator rt http (request_messages user_message (context_manager sh)) =
      map JStr fragments @ [error_chunk e] \<longrightarrow>
      fst (stream_ai_response rt env http None user_message sh) =
        concat fragments @ py ''Error: '' @ exc_str e \<and>
      cancelled_stream_state (streaming_ui (snd (stream_ai_response rt env http None user_message sh))) =
        cancelled_stream_state (streaming_ui sh)) \<and>
   (http (request_messages user_message (context_manager sh)) = PostFailed e \<longrightarrow>
      create_api_streaming_generator rt http (request_messages user_message (context_manager sh)) =
        map JStr [] @ [error_chunk e]) \<and>
   (http (request_messages user_message (context_manager sh)) = Streamed lines (Some e) \<and>
    (\<forall>l\<in>set lines. passes rt l) \<and> contents_of rt lines = map JStr fragments \<longrightarrow>
      create_api_streaming_generator rt http (request_messages user_message (context_manager sh)) =
        map JStr fragments @ [error_chunk e]) \<and>
   (http (request_messages user_message (context_manager sh)) = Streamed (lines @ line # post) ending \<and>
    (\<forall>l\<in>set lines. passes rt l) \<and> contents_of rt lines = map JStr fragments \<and>
    line \<noteq> [] \<and> decode_utf8 rt line = Inl e \<longrightarrow>
      create_api_streaming_generator rt http (request_messages user_message (context_manager sh)) =
        map JStr fragments @ [error_chunk e])"
proof -
  let ?msgs = "request_messages user_message (context_manager sh)"
  have 1: "api_call_func (ui\<lparr>markdown_renderer := reset (markdown_renderer ui)\<rparr>) =
      text_chunks fragments @ Raised e # rest \<longrightarrow>
      fst (stream_ai_response_with_live_markdown rt api_call_func ui) =
        cross_mark @ py '' Error: '' @ exc_str e \<and>
      cancelled_stream_state (snd (stream_ai_response_with_live_markdown rt api_call_func ui)) =
        cancelled_stream_state ui"
    by (simp add: live_markdown_raised)
  have 2: "create_api_streaming_generator rt http ?msgs =
      map JStr fragments @ v # later \<and> (\<forall>s. v \<noteq> JStr s) \<longrightarrow>
      fst (stream_ai_response rt env http None user_message sh) =
        cross_mark @ py '' Error: '' @ error_message rt TypeError v \<and>
      cancelled_stream_state (streaming_ui (snd (stream_ai_response rt env http None user_message sh))) =
        cancelled_stream_state (streaming_ui sh) \<and>
      context_manager (snd (stream_ai_response rt env http None user_message sh)) =
        context_manager sh"
    by (simp add: shell_not_text)
  have 3: "create_api_streaming_generator rt http ?msgs =
      map JStr fragments @ [error_chunk e] \<longrightarrow>
      fst (stream_ai_response rt env http None user_message sh) =
        concat fragments @ py ''Error: '' @ exc_str e \<and>
      cancelled_stream_state (streaming_ui (snd (stream_ai_response rt env http None user_message sh))) =
        cancelled_stream_state (streaming_ui sh)"
    by (simp add: shell_error_fragment)
  have 4: "http ?msgs = PostFailed e \<longrightarrow>
      create_api_streaming_generator rt http ?msgs = map JStr [] @ [error_chunk e]"
    using generator_post_failed by blast
  have 5: "http ?msgs = Streamed lines (Some e) \<and>
    (\<forall>l\<in>set lines. passes rt l) \<and> contents_of rt lines = map JStr fragments \<longrightarrow>
      create_api_streaming_generator rt http ?msgs = map JStr fragments @ [error_chunk e]"
    using generator_broken_stream by blast
  have 6: "http ?msgs = Streamed (lines @ line # post) ending \<and>
    (\<forall>l\<in>set lines. passes rt l) \<and> contents_of rt lines = map JStr fragments \<and>
    line \<noteq> [] \<and> decode_utf8 rt line = Inl e \<longrightarrow>
      create_api_streaming_generator rt http ?msgs = map JStr fragments @ [error_chunk e]"
    using generator_undecodable_line by blast
  from 1 2 3 4 5 6 show ?thesis by blast
qed

theorem ingestion_fault_result_witness:
  "fst (stream_ai_response_with_live_markdown example_runtime
          (\<lambda>ui. text_chunks [py ''The''] @ [Raised (Exc RequestException (py ''boom''))])
          new_StreamingUIManager) = cross_mark @ py '' Error: boom'' \<and>
   (let numeric = (\<lambda>msgs. Streamed
                     [''data: {\"choices\":[{\"delta\":{\"content\":5}}]}''] None);
        (response, after) =
          stream_ai_response example_runtime example_environment numeric None
            (py ''What is 2+3?'') new_HybridShell
    in response = cross_mark @ py '' Error: unsupported operand'' \<and>
       cancelled_stream_state (streaming_ui after) = None \<and>
       conversation_history (context_manager after) = []) \<and>
   (let strict = example_runtime
          \<lparr>decode_utf8 := (\<lambda>bytes. if bytes = [CHR 0xFF]
                                    then Inl (Exc UnicodeDecodeError (py ''invalid start byte''))
                                    else Inr (map of_char bytes))\<rparr>;
        (response, after) =
          stream_ai_response strict example_environment (\<lambda>msgs. Streamed [[CHR 0xFF]] None)
            None (py ''What is 2+3?'') new_HybridShell
    in response = py ''Error: invalid start byte'' \<and>
       cancelled_stream_state (streaming_ui after) = None)"
proof -
  let ?api = "\<lambda>ui::StreamingUIManager.
      text_chunks [py ''The''] @ [Raised (Exc RequestException (py ''boom''))]"
  let ?numeric = "\<lambda>msgs::message list. Streamed
      [''data: {\"choices\":[{\"delta\":{\"content\":5}}]}''] None"
  let ?strict = "example_runtime
      \<lparr>decode_utf8 := (\<lambda>bytes. if bytes = [CHR 0xFF]
                                then Inl (Exc UnicodeDecodeError (py ''invalid start byte''))
                                else Inr (map of_char bytes))\<rparr>"
  let ?garbled = "\<lambda>msgs::message list. Streamed [[CHR 0xFF]] None"
  let ?msgs = "request_messages (py ''What is 2+3?'') (context_manager new_HybridShell)"
  have 1: "fst (stream_ai_response_with_live_markdown example_runtime ?api
      new_StreamingUIManager) = cross_mark @ py '' Error: boom''"
    using ingestion_fault_result [where api_call_func = ?api and ui = new_StreamingUIManager
        and fragments = "[py ''The'']" and e = "Exc RequestException (py ''boom'')"
        and rest = "[]" and rt = example_runtime]
    by (simp add: py_def)
  have g: "create_api_streaming_generator example_runtime ?numeric ?msgs =
      map JStr [] @ JNum 5 # []"
    by (simp add: example_runtime_def content_frame_def create_api_streaming_generator_def
        handle_line_def frame_content_def startswith_def py_strip_def isspace_def py_def Let_def)
  have 2: "fst (stream_ai_response example_runtime example_environment ?numeric None
        (py ''What is 2+3?'') new_HybridShell) = cross_mark @ py '' Error: unsupported operand'' \<and>
      cancelled_stream_state (streaming_ui (snd (stream_ai_response example_runtime
        example_environment ?numeric None (py ''What is 2+3?'') new_HybridShell))) = None \<and>
      conversation_history (context_manager (snd (stream_ai_response example_runtime
        example_environment ?numeric None (py ''What is 2+3?'') new_HybridShell))) = []"
    using ingestion_fault_result [where rt = example_runtime and http = ?numeric
        and user_message = "py ''What is 2+3?''" and sh = new_HybridShell
        and fragments = "[]" and v = "JNum 5" and later = "[]" and env = example_environment] g
    by (simp add: example_runtime_def new_HybridShell_def new_StreamingUIManager_def
        new_ContextManager_def py_def)
  have d: "create_api_streaming_generator ?strict ?garbled ?msgs =
      map JStr [] @ [error_chunk (Exc UnicodeDecodeError (py ''invalid start byte''))]"
    using ingestion_fault_result [where rt = ?strict and http = ?garbled
        and user_message = "py ''What is 2+3?''" and sh = new_HybridShell
        and lines = "[]" and line = "[CHR 0xFF]" and post = "[]" and ending = None
        and fragments = "[]" and e = "Exc UnicodeDecodeError (py ''invalid start byte'')"]
    by (simp add: contents_of_def)
  have 3: "fst (stream_ai_response ?strict example_environment ?garbled None
        (py ''What is 2+3?'') new_HybridShell) = py ''Error: invalid start byte'' \<and>
      cancelled_stream_state (streaming_ui (snd (stream_ai_response ?strict
        example_environment ?garbled None (py ''What is 2+3?'') new_HybridShell))) = None"
    using ingestion_fault_result [where rt = ?strict and http = ?garbled
        and user_message = "py ''What is 2+3?''" and sh = new_HybridShell
        and fragments = "[]" and e = "Exc UnicodeDecodeError (py ''invalid start byte'')"
        and env = example_environment] d
    by (simp add: new_HybridShell_def new_StreamingUIManager_def py_def)
  from 1 2 3 show ?thesis
    unfolding Let_def by (simp add: split_beta)
qed

text \<open>
  Claim C8 as stated fails for a failure of the network: a request that times out gives
  the response \<^verbatim>\<open>Error: Read timed out\<close>, which is not the error sentinel, passes the test
  for a completed turn and is appended to the history.
\<close>

theorem timeout_is_not_an_error_result:
  "(let timeout = (\<lambda>msgs. PostFailed (Exc RequestException (py ''Read timed out'')));
        (response, after) =
          stream_ai_response example_runtime example_environment timeout None
            (py ''What is 2+2?'') new_HybridShell
    in response = py ''Error: Read timed out'' \<and>
       response \<noteq> cross_mark @ py '' Error: Read timed out'' \<and>
       completed_turn response \<and>
       conversation_history (context_manager after) =
         [\<lparr>role = py ''user'', content = py ''What is 2+2?''\<rparr>,
          \<lparr>role = py ''assistant'', content = py ''Error: Read timed out''\<rparr>])"
proof -
  let ?timeout = "\<lambda>msgs::message list. PostFailed (Exc RequestException (py ''Read timed out''))"
  have g: "create_api_streaming_generator example_runtime ?timeout msgs =
      map JStr [] @ [error_chunk (Exc RequestException (py ''Read timed out''))]" for msgs
    by (simp add: create_api_streaming_generator_def)
  have t: "completed_turn (py ''Error: '' @ py ''Read timed out'')"
    by (rule error_text_completed)
  show ?thesis
    unfolding Let_def shell_error_fragment [OF g]
    using t
    by (simp add: add_conversation_def new_HybridShell_def new_ContextManager_def
        MAX_CONVERSATION_HISTORY_def Let_def py_def cross_mark_def)
qed

end
